theory Spec2Isabelle
  imports Main "HOL-Library.Sublist"
begin

section \<open>Python values used by the translation workflow\<close>

text \<open>
  A Python \<open>str\<close> is modelled as a \<open>string\<close>: each \<open>char\<close> stands for one code
  point below 256. The operations below are the built-ins that \<open>workflow.py\<close> and
  \<open>agents.py\<close> apply to strings and lists: \<open>sub in s\<close>, \<open>s.find(sub)\<close>,
  \<open>s.split(sep)\<close>, \<open>s.strip()\<close> and \<open>xs[i]\<close>.
\<close>

text \<open>An exception object; \<open>message\<close> is what \<open>str(e)\<close> returns.\<close>

datatype exn = Exception (message: string)

text \<open>Sequencing of pure steps that may raise: the first exception wins.\<close>

definition and_then :: "exn + 'a \<Rightarrow> ('a \<Rightarrow> exn + 'b) \<Rightarrow> exn + 'b" where
  "and_then r f = (case r of Inl e \<Rightarrow> Inl e | Inr x \<Rightarrow> f x)"

text \<open>\<open>s.find(sub)\<close>: the lowest index at which \<open>sub\<close> occurs in \<open>s\<close>, if any.\<close>

fun py_find :: "string \<Rightarrow> string \<Rightarrow> nat option" where
  "py_find sub [] = (if sub = [] then Some 0 else None)"
| "py_find sub (c # cs) =
     (if prefix sub (c # cs) then Some 0 else map_option Suc (py_find sub cs))"

text \<open>\<open>sub in s\<close>.\<close>

definition py_in :: "string \<Rightarrow> string \<Rightarrow> bool" where
  "py_in sub s = (py_find sub s \<noteq> None)"

text \<open>
  \<open>s.split(sep)\<close> for a non-empty separator: cut at the leftmost occurrence, then go on
  in the text that follows it. With an empty separator Python raises \<open>ValueError\<close>.
\<close>

function py_split_parts :: "string \<Rightarrow> string \<Rightarrow> string list" where
  "py_split_parts sep s =
     (case py_find sep s of
        None \<Rightarrow> [s]
      | Some i \<Rightarrow>
          if sep = [] then [s]
          else take i s # py_split_parts sep (drop (i + length sep) s))"
  by pat_completeness auto
termination
  apply (relation "measure (\<lambda>(sep, s). length s)")
   apply simp
  subgoal for sep s i
    by (cases s) (auto split: if_splits)
  done

declare py_split_parts.simps [simp del]

definition py_split :: "string \<Rightarrow> string \<Rightarrow> exn + string list" where
  "py_split s sep =
     (if sep = [] then Inl (Exception ''empty separator'')
      else Inr (py_split_parts sep s))"

text \<open>\<open>xs[i]\<close> for \<open>i \<ge> 0\<close>: \<open>IndexError\<close> out of range.\<close>

definition py_index :: "'a list \<Rightarrow> nat \<Rightarrow> exn + 'a" where
  "py_index xs i =
     (if i < length xs then Inr (xs ! i) else Inl (Exception ''list index out of range''))"

text \<open>
  \<open>c.isspace()\<close> on the code points below 256: tab, line feed, vertical tab, form feed,
  carriage return, the separators \<open>0x1C\<close> to \<open>0x1F\<close>, space, \<open>0x85\<close> and \<open>0xA0\<close>.
\<close>

definition py_isspace :: "char \<Rightarrow> bool" where
  "py_isspace c =
     ((of_char c :: nat) \<in> {9, 10, 11, 12, 13, 28, 29, 30, 31, 32, 133, 160})"

text \<open>\<open>s.strip()\<close>: drop leading and trailing whitespace.\<close>

definition py_strip :: "string \<Rightarrow> string" where
  "py_strip s = rev (dropWhile py_isspace (rev (dropWhile py_isspace s)))"


section \<open>Parsing the quality assessment (workflow.py, lines 196 to 211)\<close>

text \<open>
  \<^verbatim>\<open>
  accuracy_score = "N/A"
  if "SCORES:" in quality_assessment:
      try:
          scores_section = quality_assessment.split("SCORES:")[1].split("ASSESSMENT:")[0]
          accuracy_score = scores_section.strip()
      except:
          pass
  \<close>
\<close>

definition extract_accuracy_score :: "string \<Rightarrow> string" where
  "extract_accuracy_score qa =
     (if py_in ''SCORES:'' qa then
        (case and_then (py_split qa ''SCORES:'') (\<lambda>parts.
              and_then (py_index parts 1) (\<lambda>after_scores.
              and_then (py_split after_scores ''ASSESSMENT:'') (\<lambda>pieces.
              and_then (py_index pieces 0) (\<lambda>scores_section.
              Inr (py_strip scores_section))))) of
           Inr score \<Rightarrow> score
         | Inl _ \<Rightarrow> ''N/A'')
      else ''N/A'')"

text \<open>
  \<^verbatim>\<open>
  final_recommendation = refined_translation
  if "RECOMMENDATION:" in quality_assessment:
      try:
          final_recommendation = quality_assessment.split("RECOMMENDATION:")[1].strip()
      except:
          pass
  \<close>
\<close>

definition extract_final_recommendation :: "string \<Rightarrow> string \<Rightarrow> string" where
  "extract_final_recommendation qa refined =
     (if py_in ''RECOMMENDATION:'' qa then
        (case and_then (py_split qa ''RECOMMENDATION:'') (\<lambda>parts.
              and_then (py_index parts 1) (\<lambda>after_marker.
              Inr (py_strip after_marker))) of
           Inr recommendation \<Rightarrow> recommendation
         | Inl _ \<Rightarrow> refined)
      else refined)"


section \<open>Effects: console output, external calls and exceptions\<close>

text \<open>One constructor per \<open>print\<close> statement of \<open>workflow.py\<close> and \<open>agents.py\<close>.\<close>

datatype console_line =
    LanguageNotSupported string \<comment> \<open>workflow.py line 69, with the requested target language\<close>
  | TranslationError string \<comment> \<open>line 83, with \<open>str(e)\<close>\<close>
  | StartingTranslation string string \<comment> \<open>line 88, with source and target language\<close>
  | TextToTranslate string \<comment> \<open>line 89\<close>
  | GettingInitialTranslation \<comment> \<open>line 92\<close>
  | InitialTranslation string \<comment> \<open>line 94\<close>
  | ExecutingCrew \<comment> \<open>line 181\<close>
  | CrewExecutionFailed string \<comment> \<open>line 190, with \<open>str(e)\<close>\<close>
  | ProcessingBatchItem nat nat \<comment> \<open>line 229, item number and batch size\<close>
  | GeminiApiError string \<comment> \<open>agents.py line 63, with \<open>str(e)\<close>\<close>

text \<open>The keyword arguments of \<open>self.model.generate(**inputs, ...)\<close>.\<close>

record 'enc generate_kwargs =
  inputs :: 'enc
  forced_bos_token_id :: int
  max_length :: nat
  num_beams :: nat
  early_stopping :: bool
  do_sample :: bool

text \<open>
  The state a call runs in: \<open>world\<close> is everything the external libraries own (the
  tokenizer and model, the agent framework's objects, the network); \<open>console\<close> is what
  has been printed; \<open>generate_calls\<close> records the arguments of every call of
  \<open>model.generate\<close>, in order.
\<close>

record ('w, 'enc) runtime =
  world :: 'w
  console :: "console_line list"
  generate_calls :: "'enc generate_kwargs list"

text \<open>A statement either raises or yields a value, and leaves a new state.\<close>

type_synonym ('w, 'enc, 'a) prog = "('w, 'enc) runtime \<Rightarrow> (exn + 'a) \<times> ('w, 'enc) runtime"

definition return_val :: "'a \<Rightarrow> ('w, 'enc, 'a) prog" where
  "return_val x = (\<lambda>s. (Inr x, s))"

definition bind_prog :: "('w, 'enc, 'a) prog \<Rightarrow> ('a \<Rightarrow> ('w, 'enc, 'b) prog) \<Rightarrow> ('w, 'enc, 'b) prog" where
  "bind_prog m f = (\<lambda>s. case m s of (Inl e, s') \<Rightarrow> (Inl e, s') | (Inr x, s') \<Rightarrow> f x s')"

text \<open>
  \<open>try: body except Exception as e: handler\<close>. Every exception of the model is an
  \<open>Exception\<close>, so the bare \<open>except:\<close> of the source catches the same ones.
\<close>

definition try_except :: "('w, 'enc, 'a) prog \<Rightarrow> (exn \<Rightarrow> ('w, 'enc, 'a) prog) \<Rightarrow> ('w, 'enc, 'a) prog" where
  "try_except body handler =
     (\<lambda>s. case body s of (Inl e, s') \<Rightarrow> handler e s' | (Inr x, s') \<Rightarrow> (Inr x, s'))"

text \<open>A pure step that may raise.\<close>

definition from_result :: "exn + 'a \<Rightarrow> ('w, 'enc, 'a) prog" where
  "from_result r = (\<lambda>s. (r, s))"

text \<open>A call into an external library: it sees and changes the world only.\<close>

definition call_world :: "('w \<Rightarrow> (exn + 'a) \<times> 'w) \<Rightarrow> ('w, 'enc, 'a) prog" where
  "call_world f = (\<lambda>s. case f (world s) of (r, w') \<Rightarrow> (r, s\<lparr>world := w'\<rparr>))"

definition print_line :: "console_line \<Rightarrow> ('w, 'enc, unit) prog" where
  "print_line l = (\<lambda>s. (Inr (), s\<lparr>console := console s @ [l]\<rparr>))"


section \<open>The workflow object and its collaborators\<close>

text \<open>
  The attributes of the \<open>TranslationWorkflow\<close> object and the library calls it makes.
  The libraries (transformers, crewai) are not part of the repository: every call into
  them is a field here, and may raise.
  \<^item> \<open>tokenizer_set_src_lang\<close>: the assignment to \<open>self.tokenizer.src_lang\<close>;
  \<^item> \<open>tokenizer_encode\<close>: \<open>self.tokenizer(text, return_tensors="pt")\<close>;
  \<^item> \<open>tokenizer_get_lang_id\<close>: \<open>self.tokenizer.get_lang_id(lang)\<close>, a lookup in the
    tokenizer's fixed table of language tokens;
  \<^item> \<open>model_generate\<close>: \<open>self.model.generate(**kwargs)\<close>, the batch of output sequences;
  \<^item> \<open>tokenizer_decode\<close>: \<open>self.tokenizer.decode(seq, skip_special_tokens=True)\<close>;
  \<^item> \<open>new_Task\<close>, \<open>new_Crew\<close>: the constructors \<open>Task(...)\<close> and \<open>Crew(...)\<close>;
  \<^item> \<open>crew_kickoff\<close>: \<open>crew.kickoff()\<close>, which stores each task's output in the task;
  \<^item> \<open>task_output\<close>: reading the attribute \<open>task.output\<close>.
\<close>

text \<open>
  What reading \<open>task.output\<close> finds: no such attribute, or an object with its truth
  value and its \<open>str()\<close>, which is taken not to raise.
\<close>

datatype output_attr = NoAttribute | Attribute (is_truthy: bool) (as_str: string)

record ('agent, 'task) task_kwargs =
  description :: string
  agent :: 'agent
  expected_output :: string
  task_context :: "'task list option" \<comment> \<open>\<open>None\<close>: the keyword is not passed\<close>

datatype process = Sequential | Hierarchical

record ('agent, 'task) crew_kwargs =
  agents :: "'agent list"
  tasks :: "'task list"
  crew_process :: process
  verbose :: bool

record ('w, 'enc, 'seq, 'agent, 'task, 'crew) workflow =
  tokenizer_set_src_lang :: "string \<Rightarrow> 'w \<Rightarrow> (exn + unit) \<times> 'w"
  tokenizer_encode :: "string \<Rightarrow> 'w \<Rightarrow> (exn + 'enc) \<times> 'w"
  tokenizer_get_lang_id :: "string \<Rightarrow> exn + int"
  model_generate :: "'enc generate_kwargs \<Rightarrow> 'w \<Rightarrow> (exn + 'seq list) \<times> 'w"
  tokenizer_decode :: "'seq \<Rightarrow> 'w \<Rightarrow> (exn + string) \<times> 'w"
  translator_agent :: 'agent
  context_agent :: 'agent
  quality_agent :: 'agent
  new_Task :: "('agent, 'task) task_kwargs \<Rightarrow> 'w \<Rightarrow> (exn + 'task) \<times> 'w"
  new_Crew :: "('agent, 'task) crew_kwargs \<Rightarrow> 'w \<Rightarrow> (exn + 'crew) \<times> 'w"
  crew_kickoff :: "'crew \<Rightarrow> 'w \<Rightarrow> (exn + unit) \<times> 'w"
  task_output :: "'task \<Rightarrow> 'w \<Rightarrow> output_attr"

text \<open>\<open>self.model.generate(**kwargs)\<close>, with the call recorded.\<close>

definition call_generate ::
  "('w, 'enc, 'seq, 'agent, 'task, 'crew) workflow \<Rightarrow> 'enc generate_kwargs \<Rightarrow> ('w, 'enc, 'seq list) prog" where
  "call_generate self kwargs =
     (\<lambda>s. call_world (model_generate self kwargs) (s\<lparr>generate_calls := generate_calls s @ [kwargs]\<rparr>))"


section \<open>The draft translation (workflow.py, lines 50 to 84)\<close>

definition lang_mapping :: "(string \<times> string) list" where
  "lang_mapping =
     [(''en'', ''en''), (''fr'', ''fr''), (''es'', ''es''), (''de'', ''de''), (''it'', ''it''),
      (''pt'', ''pt''), (''ru'', ''ru''), (''zh'', ''zh''), (''ja'', ''ja''), (''ko'', ''ko''),
      (''ar'', ''ar''), (''hi'', ''hi'')]"

text \<open>\<open>d.get(key, default)\<close>.\<close>

definition dict_get :: "('k \<times> 'v) list \<Rightarrow> 'k \<Rightarrow> 'v \<Rightarrow> 'v" where
  "dict_get d k dflt = (case map_of d k of Some v \<Rightarrow> v | None \<Rightarrow> dflt)"

text \<open>
  \<open>_get_initial_translation\<close>. The inner \<open>try\<close> asks the tokenizer for the id of the
  mapped target language; its handler asks for the id of \<open>'fr'\<close> and then prints the
  warning. The outer handler turns every exception into a text. The context manager
  \<open>torch.no_grad()\<close> changes no value and is left out.
\<close>

definition get_initial_translation ::
  "('w, 'enc, 'seq, 'agent, 'task, 'crew) workflow \<Rightarrow> string \<Rightarrow> string \<Rightarrow> string \<Rightarrow> ('w, 'enc, string) prog" where
  "get_initial_translation self text src_lang tgt_lang =
     try_except
       (bind_prog (call_world (tokenizer_set_src_lang self src_lang)) (\<lambda>_.
        bind_prog (call_world (tokenizer_encode self text)) (\<lambda>encoded.
        let mapped_target = dict_get lang_mapping tgt_lang ''fr'' in
        bind_prog
          (try_except
             (from_result (tokenizer_get_lang_id self mapped_target))
             (\<lambda>_. bind_prog (from_result (tokenizer_get_lang_id self ''fr'')) (\<lambda>fr_id.
                   bind_prog (print_line (LanguageNotSupported tgt_lang)) (\<lambda>_.
                   return_val fr_id)))) (\<lambda>bos.
        bind_prog
          (call_generate self
             \<lparr>inputs = encoded, forced_bos_token_id = bos, max_length = 200,
              num_beams = 4, early_stopping = True, do_sample = False\<rparr>) (\<lambda>outputs.
        bind_prog (from_result (py_index outputs 0)) (\<lambda>first.
        call_world (tokenizer_decode self first)))))))
       (\<lambda>e. bind_prog (print_line (TranslationError (message e))) (\<lambda>_.
            return_val (''Translation failed: '' @ message e)))"


section \<open>The multi-agent workflow (workflow.py, lines 86 to 232)\<close>

record TranslationResult =
  original_text :: string
  source_lang :: string
  target_lang :: string
  initial_translation :: string
  context_analysis :: string
  refined_translation :: string
  accuracy_score :: string
  quality_assessment :: string
  final_recommendation :: string

text \<open>
  A triple-quoted block of the source: a line feed, then every line behind twelve
  spaces and closed by a line feed, then the twelve spaces before the closing quotes.
\<close>

definition indented_block :: "string list \<Rightarrow> string" where
  "indented_block ls =
     ''\<newline>'' @ concat (map (\<lambda>l. replicate 12 CHR '' '' @ l @ ''\<newline>'') ls)
       @ replicate 12 CHR '' ''"

definition context_description :: "string \<Rightarrow> string \<Rightarrow> string \<Rightarrow> string \<Rightarrow> string" where
  \<open>context_description text src_lang tgt_lang initial = indented_block
     [''Analyze the following text for translation context:'',
      [],
      ''Original Text: "'' @ text @ ''"'',
      ''Source Language: '' @ src_lang,
      ''Target Language: '' @ tgt_lang,
      ''Initial Translation: "'' @ initial @ ''"'',
      [],
      ''Please provide:'',
      ''1. Text type and domain (formal/casual, business/personal, etc.)'',
      ''2. Cultural elements that need special attention'',
      ''3. Tone and register analysis'',
      ''4. Specific challenges for this language pair'',
      ''5. Recommendations for cultural adaptation'',
      [],
      ''Format your response as a detailed analysis in 3-4 sentences.'']\<close>

definition refinement_description :: "string \<Rightarrow> string \<Rightarrow> string \<Rightarrow> string" where
  \<open>refinement_description text tgt_lang initial = indented_block
     [''Based on the context analysis, refine this translation:'',
      [],
      ''Original Text: "'' @ text @ ''"'',
      ''Initial Translation: "'' @ initial @ ''"'',
      ''Target Language: '' @ tgt_lang,
      [],
      ''Create an improved translation that:'',
      ''1. Sounds more natural and fluent'',
      ''2. Maintains the original meaning and tone'',
      ''3. Incorporates cultural appropriateness'',
      ''4. Fixes any grammatical or stylistic issues'',
      ''5. Matches the appropriate register (formal/informal)'',
      [],
      ''Provide ONLY the refined translation, nothing else.'']\<close>

definition quality_description :: "string \<Rightarrow> string \<Rightarrow> string \<Rightarrow> string \<Rightarrow> string" where
  \<open>quality_description text src_lang tgt_lang initial = indented_block
     [''Evaluate the translation quality and provide comprehensive assessment:'',
      [],
      ''Original ('' @ src_lang @ ''): "'' @ text @ ''"'',
      ''Initial Translation: "'' @ initial @ ''"'',
      ''Target Language: '' @ tgt_lang,
      [],
      ''Assess and score (1-10):'',
      ''1. Accuracy (meaning preservation)'',
      ''2. Fluency (natural sound)'',
      ''3. Cultural appropriateness'',
      ''4. Overall quality'',
      [],
      ''Also provide:'',
      ''- Specific strengths and weaknesses'',
      ''- Final recommendation (use refined or suggest further improvements)'',
      ''- Brief justification for scores'',
      [],
      ''Format as:'',
      ''SCORES: Accuracy: X/10, Fluency: X/10, Cultural: X/10, Overall: X/10'',
      ''ASSESSMENT: [detailed analysis]'',
      ''RECOMMENDATION: [final recommendation]'']\<close>

text \<open>
  Lines 88 to 170 of \<open>translate\<close>, everything before the \<open>try\<close>: the draft and the
  three \<open>Task(...)\<close> constructions. It yields the draft and the three tasks.
\<close>

definition translate_prelude ::
  "('w, 'enc, 'seq, 'agent, 'task, 'crew) workflow \<Rightarrow> string \<Rightarrow> string \<Rightarrow> string
     \<Rightarrow> ('w, 'enc, string \<times> 'task \<times> 'task \<times> 'task) prog" where
  "translate_prelude self text src_lang tgt_lang =
     bind_prog (print_line (StartingTranslation src_lang tgt_lang)) (\<lambda>_.
     bind_prog (print_line (TextToTranslate text)) (\<lambda>_.
     bind_prog (print_line GettingInitialTranslation) (\<lambda>_.
     bind_prog (get_initial_translation self text src_lang tgt_lang) (\<lambda>initial.
     bind_prog (print_line (InitialTranslation initial)) (\<lambda>_.
     bind_prog (call_world (new_Task self
        \<lparr>description = context_description text src_lang tgt_lang initial,
         agent = context_agent self,
         expected_output = ''Detailed context analysis with cultural and linguistic insights'',
         task_context = None\<rparr>)) (\<lambda>context_task.
     bind_prog (call_world (new_Task self
        \<lparr>description = refinement_description text tgt_lang initial,
         agent = translator_agent self,
         expected_output = ''Refined, natural translation that incorporates context insights'',
         task_context = Some [context_task]\<rparr>)) (\<lambda>refinement_task.
     bind_prog (call_world (new_Task self
        \<lparr>description = quality_description text src_lang tgt_lang initial,
         agent = quality_agent self,
         expected_output = ''Comprehensive quality assessment with scores and recommendations'',
         task_context = Some [context_task, refinement_task]\<rparr>)) (\<lambda>quality_task.
     return_val (initial, context_task, refinement_task, quality_task)))))))))"

text \<open>
  \<open>str(task.output) if hasattr(task, 'output') and task.output else default\<close>.
\<close>

definition output_or :: "output_attr \<Rightarrow> string \<Rightarrow> string" where
  "output_or out dflt =
     (case out of
        NoAttribute \<Rightarrow> dflt
      | Attribute truthy txt \<Rightarrow> if truthy then txt else dflt)"

definition read_output ::
  "('w, 'enc, 'seq, 'agent, 'task, 'crew) workflow \<Rightarrow> 'task \<Rightarrow> ('w, 'enc, output_attr) prog" where
  "read_output self task = (\<lambda>s. (Inr (task_output self task (world s)), s))"

text \<open>
  Lines 174 to 187, the body of the \<open>try\<close>: build the crew, run it, read the three
  outputs. It yields \<open>(context_analysis, refined_translation, quality_assessment)\<close>.
\<close>

definition crew_try_body ::
  "('w, 'enc, 'seq, 'agent, 'task, 'crew) workflow \<Rightarrow> string \<Rightarrow> 'task \<Rightarrow> 'task \<Rightarrow> 'task
     \<Rightarrow> ('w, 'enc, string \<times> string \<times> string) prog" where
  "crew_try_body self initial context_task refinement_task quality_task =
     bind_prog (call_world (new_Crew self
        \<lparr>agents = [context_agent self, translator_agent self, quality_agent self],
         tasks = [context_task, refinement_task, quality_task],
         crew_process = Sequential,
         verbose = False\<rparr>)) (\<lambda>crew.
     bind_prog (print_line ExecutingCrew) (\<lambda>_.
     bind_prog (call_world (crew_kickoff self crew)) (\<lambda>_.
     bind_prog (read_output self context_task) (\<lambda>context_out.
     bind_prog (read_output self refinement_task) (\<lambda>refinement_out.
     bind_prog (read_output self quality_task) (\<lambda>quality_out.
     return_val
       (output_or context_out ''Context analysis not available'',
        output_or refinement_out initial,
        output_or quality_out ''Quality assessment not available'')))))))"

text \<open>Lines 189 to 194, the handler of the \<open>try\<close>.\<close>

definition crew_except :: "string \<Rightarrow> exn \<Rightarrow> ('w, 'enc, string \<times> string \<times> string) prog" where
  "crew_except initial e =
     bind_prog (print_line (CrewExecutionFailed (message e))) (\<lambda>_.
     return_val
       (''Multi-agent analysis failed'',
        initial,
        ''Quality assessment failed: '' @ message e))"

definition translate ::
  "('w, 'enc, 'seq, 'agent, 'task, 'crew) workflow \<Rightarrow> string \<Rightarrow> string \<Rightarrow> string
     \<Rightarrow> ('w, 'enc, TranslationResult) prog" where
  "translate self text src_lang tgt_lang =
     bind_prog (translate_prelude self text src_lang tgt_lang)
       (\<lambda>(initial, context_task, refinement_task, quality_task).
     bind_prog
       (try_except
          (crew_try_body self initial context_task refinement_task quality_task)
          (crew_except initial))
       (\<lambda>(context_text, refined, qa).
     return_val
       \<lparr>original_text = text,
        source_lang = src_lang,
        target_lang = tgt_lang,
        initial_translation = initial,
        context_analysis = context_text,
        refined_translation = refined,
        accuracy_score = extract_accuracy_score qa,
        quality_assessment = qa,
        final_recommendation = extract_final_recommendation qa refined\<rparr>))"

text \<open>
  \<open>batch_translate\<close>: the \<open>for\<close> loop over \<open>enumerate(texts, 1)\<close>, with \<open>n = len(texts)\<close>,
  the item number \<open>i\<close> and the list \<open>results\<close> built so far. There is no \<open>try\<close> in
  the loop: an exception of \<open>translate\<close> leaves it.
\<close>

fun batch_loop ::
  "('w, 'enc, 'seq, 'agent, 'task, 'crew) workflow \<Rightarrow> string \<Rightarrow> string \<Rightarrow> nat \<Rightarrow> nat
     \<Rightarrow> string list \<Rightarrow> TranslationResult list \<Rightarrow> ('w, 'enc, TranslationResult list) prog" where
  "batch_loop self src_lang tgt_lang n i [] results = return_val results"
| "batch_loop self src_lang tgt_lang n i (text # rest) results =
     bind_prog (print_line (ProcessingBatchItem i n)) (\<lambda>_.
     bind_prog (translate self text src_lang tgt_lang) (\<lambda>result.
     batch_loop self src_lang tgt_lang n (Suc i) rest (results @ [result])))"

definition batch_translate ::
  "('w, 'enc, 'seq, 'agent, 'task, 'crew) workflow \<Rightarrow> string list \<Rightarrow> string \<Rightarrow> string
     \<Rightarrow> ('w, 'enc, TranslationResult list) prog" where
  "batch_translate self texts src_lang tgt_lang =
     batch_loop self src_lang tgt_lang (length texts) 1 texts []"


section \<open>The language-model client (agents.py, lines 27 to 65)\<close>

text \<open>
  The values \<open>call\<close> tells apart with \<open>isinstance\<close>: a \<open>str\<close>, a \<open>list\<close>, a \<open>dict\<close>
  (with \<open>str\<close> keys), and any other object, which is left abstract.
\<close>

datatype pyval =
    PyStr string
  | PyList "pyval list"
  | PyDict "(string \<times> pyval) list"
  | PyObject nat

text \<open>
  The \<open>GeminiLLM\<close> object and what it calls.
  \<^item> \<open>generate_content\<close>: \<open>self.gemini_model.generate_content(content)\<close>;
  \<^item> \<open>response_text\<close>: reading the property \<open>response.text\<close>, which raises, or is
    \<open>None\<close>, or a \<open>str\<close>;
  \<^item> \<open>str_of\<close>: Python's \<open>str(x)\<close> for a value \<open>x\<close> that is not a \<open>str\<close>.
\<close>

record ('w, 'resp) gemini_llm =
  generate_content :: "pyval \<Rightarrow> 'w \<Rightarrow> (exn + 'resp) \<times> 'w"
  response_text :: "'resp \<Rightarrow> exn + string option"
  str_of :: "pyval \<Rightarrow> string"

text \<open>
  \<open>x + "\n"\<close>: defined for a \<open>str\<close>; a \<open>TypeError\<close> for the other values, with
  Python's text for a \<open>list\<close> and for a \<open>dict\<close>. For another object the text names the
  object's type, which the model does not know: it ends after the operator.
\<close>

definition add_newline :: "pyval \<Rightarrow> exn + string" where
  \<open>add_newline x =
     (case x of
        PyStr v \<Rightarrow> Inr (v @ ''\<newline>'')
      | PyList _ \<Rightarrow> Inl (Exception ''can only concatenate list (not "str") to list'')
      | PyDict _ \<Rightarrow>
          Inl (Exception (''unsupported operand type(s) for +: 'dict' and 'str'' @ [CHR 0x27]))
      | PyObject _ \<Rightarrow> Inl (Exception ''unsupported operand type(s) for +''))\<close>

text \<open>The loop \<open>for msg in prompt\<close> of lines 37 to 44, with \<open>content\<close> built so far.\<close>

fun collect_messages :: "string \<Rightarrow> pyval list \<Rightarrow> exn + string" where
  "collect_messages content [] = Inr content"
| "collect_messages content (msg # rest) =
     (case msg of
        PyDict d \<Rightarrow>
          (case map_of d ''content'' of
             Some v \<Rightarrow> and_then (add_newline v) (\<lambda>piece. collect_messages (content @ piece) rest)
           | None \<Rightarrow>
               (case map_of d ''text'' of
                  Some v \<Rightarrow> and_then (add_newline v) (\<lambda>piece. collect_messages (content @ piece) rest)
                | None \<Rightarrow> collect_messages content rest))
      | PyStr m \<Rightarrow> collect_messages (content @ m @ ''\<newline>'') rest
      | _ \<Rightarrow> collect_messages content rest)"

text \<open>Lines 31 to 56: the \<open>content\<close> that is sent, by the shape of \<open>prompt\<close>.\<close>

definition prompt_content :: "('w, 'resp) gemini_llm \<Rightarrow> pyval \<Rightarrow> exn + pyval" where
  "prompt_content self prompt =
     (case prompt of
        PyStr p \<Rightarrow> Inr (PyStr p)
      | PyList msgs \<Rightarrow> and_then (collect_messages [] msgs) (\<lambda>content. Inr (PyStr (py_strip content)))
      | PyDict d \<Rightarrow>
          (case map_of d ''content'' of
             Some v \<Rightarrow> Inr v
           | None \<Rightarrow>
               (case map_of d ''text'' of
                  Some v \<Rightarrow> Inr v
                | None \<Rightarrow> Inr (PyStr (str_of self prompt))))
      | PyObject _ \<Rightarrow> Inr (PyStr (str_of self prompt)))"

text \<open>\<open>response.text if response.text else "No response generated"\<close>.\<close>

definition text_or_placeholder :: "string option \<Rightarrow> string" where
  "text_or_placeholder t =
     (case t of
        None \<Rightarrow> ''No response generated''
      | Some txt \<Rightarrow> if txt \<noteq> [] then txt else ''No response generated'')"

text \<open>Lines 30 to 60, the body of the \<open>try\<close>.\<close>

definition call_try_body :: "('w, 'resp) gemini_llm \<Rightarrow> pyval \<Rightarrow> ('w, 'enc, string) prog" where
  "call_try_body self prompt =
     bind_prog (from_result (prompt_content self prompt)) (\<lambda>content.
     bind_prog (call_world (generate_content self content)) (\<lambda>response.
     bind_prog (from_result (response_text self response)) (\<lambda>t.
     return_val (text_or_placeholder t))))"

definition apology :: string where
  "apology = ''I apologize, but I encountered an error while processing your request. ''
     @ ''Please try again with a simpler prompt.''"

text \<open>\<open>GeminiLLM.call\<close>.\<close>

definition call :: "('w, 'resp) gemini_llm \<Rightarrow> pyval \<Rightarrow> ('w, 'enc, string) prog" where
  "call self prompt =
     try_except (call_try_body self prompt)
       (\<lambda>e. bind_prog (print_line (GeminiApiError (message e))) (\<lambda>_. return_val apology))"


section \<open>Auxiliary notions for the statements\<close>

text \<open>
  Where the first occurrence of \<open>sub\<close> in \<open>s\<close> starts, or the length of \<open>s\<close> when
  \<open>sub\<close> does not occur: the end of the text that runs up to the next marker.
\<close>

definition position_or_end :: "string \<Rightarrow> string \<Rightarrow> nat" where
  "position_or_end sub s = (case py_find sub s of None \<Rightarrow> length s | Some j \<Rightarrow> j)"

text \<open>
  The record that \<open>translate\<close> returns (lines 213 to 223), from the inputs, the draft and
  the triple \<open>(context_analysis, refined_translation, quality_assessment)\<close>.
\<close>

definition assemble ::
  "string \<Rightarrow> string \<Rightarrow> string \<Rightarrow> string \<Rightarrow> string \<times> string \<times> string \<Rightarrow> TranslationResult" where
  "assemble text src_lang tgt_lang initial parsed =
     (case parsed of (context_text, refined, qa) \<Rightarrow>
        \<lparr>original_text = text,
         source_lang = src_lang,
         target_lang = tgt_lang,
         initial_translation = initial,
         context_analysis = context_text,
         refined_translation = refined,
         accuracy_score = extract_accuracy_score qa,
         quality_assessment = qa,
         final_recommendation = extract_final_recommendation qa refined\<rparr>)"

text \<open>
  The condition of lines 185 to 187 fails: \<open>hasattr(task, 'output')\<close> is false, or
  \<open>task.output\<close> is falsy.
\<close>

definition missing_or_falsy :: "output_attr \<Rightarrow> bool" where
  "missing_or_falsy out =
     (case out of NoAttribute \<Rightarrow> True | Attribute truthy _ \<Rightarrow> \<not> truthy)"


section \<open>Test doubles for the collaborators\<close>

text \<open>
  A workflow object whose collaborators are canned, for running the model on concrete
  inputs. The world is the flag "the crew has run". The tokenizer accepts every text and
  knows the language codes of \<open>stub_lang_ids\<close>; the model answers with one sequence, which
  decodes to \<open>draft:\<close> and the text. \<open>Task(...)\<close> raises unless \<open>tasks_ok\<close>, and
  otherwise yields the number of tasks in the new task's context (0, 1 and 2 for the
  three tasks of \<open>translate\<close>). \<open>kickoff\<close> raises \<open>failure\<close> if there is one, and
  otherwise sets the flag; after that the three tasks hold the outputs \<open>outs\<close>.
\<close>

definition stub_lang_ids :: "(string \<times> int) list" where
  "stub_lang_ids = [(''en'', 128022), (''fr'', 128028), (''de'', 128020), (''nl'', 128065)]"

definition stub_workflow ::
  "bool \<Rightarrow> exn option \<Rightarrow> output_attr \<times> output_attr \<times> output_attr
     \<Rightarrow> (bool, string, string, string, nat, unit) workflow" where
  "stub_workflow tasks_ok failure outs =
     \<lparr>tokenizer_set_src_lang = (\<lambda>lang w. (Inr (), w)),
      tokenizer_encode = (\<lambda>text w. (Inr text, w)),
      tokenizer_get_lang_id =
        (\<lambda>lang. case map_of stub_lang_ids lang of
                  Some i \<Rightarrow> Inr i
                | None \<Rightarrow> Inl (Exception lang)),
      model_generate = (\<lambda>kwargs w. (Inr [''draft:'' @ inputs kwargs], w)),
      tokenizer_decode = (\<lambda>seq w. (Inr seq, w)),
      translator_agent = ''Professional Translator'',
      context_agent = ''Cultural Context Analyst'',
      quality_agent = ''Translation Quality Assessor'',
      new_Task =
        (\<lambda>kwargs w.
           if tasks_ok
           then (Inr (case task_context kwargs of None \<Rightarrow> 0 | Some ts \<Rightarrow> length ts), w)
           else (Inl (Exception ''validation error''), w)),
      new_Crew = (\<lambda>kwargs w. (Inr (), w)),
      crew_kickoff =
        (\<lambda>crew w. case failure of None \<Rightarrow> (Inr (), True) | Some e \<Rightarrow> (Inl e, w)),
      task_output =
        (\<lambda>task w.
           if \<not> w then Attribute False ''None''
           else case outs of (context_out, refinement_out, quality_out) \<Rightarrow>
             if task = 0 then context_out
             else if task = 1 then refinement_out
             else quality_out)\<rparr>"

text \<open>
  The same workflow with a tokenizer that, as the M2M100 tokenizer does, raises when the
  source language is set to a code that has no language id.
\<close>

definition reject_unknown_source ::
  "('w, 'enc, 'seq, 'agent, 'task, 'crew) workflow \<Rightarrow> ('w, 'enc, 'seq, 'agent, 'task, 'crew) workflow" where
  "reject_unknown_source self =
     self\<lparr>tokenizer_set_src_lang :=
       (\<lambda>lang w. case tokenizer_get_lang_id self lang of
                    Inl e \<Rightarrow> (Inl e, w)
                  | Inr _ \<Rightarrow> (Inr (), w))\<rparr>"

definition fresh :: "(bool, string) runtime" where
  "fresh = \<lparr>world = False, console = [], generate_calls = []\<rparr>"

text \<open>
  A language-model client whose service answers \<open>reply\<close> to every request: an
  exception, or a response whose \<open>text\<close> property is the response itself.
\<close>

definition stub_llm :: "exn + (exn + string option) \<Rightarrow> (nat, exn + string option) gemini_llm" where
  "stub_llm reply =
     \<lparr>generate_content = (\<lambda>content w. (reply, Suc w)),
      response_text = (\<lambda>response. response),
      str_of = (\<lambda>x. ''<object>'')\<rparr>"

definition offline :: "(nat, string) runtime" where
  "offline = \<lparr>world = 0, console = [], generate_calls = []\<rparr>"


section \<open>Facts about the string operations\<close>

text \<open>
  \<open>py_find\<close> yields the first position at which the text that follows starts with
  \<open>sub\<close>, and \<open>None\<close> exactly when there is no such position.
\<close>

lemma prefix_drop_bound:
  "sub \<noteq> [] \<Longrightarrow> prefix sub (drop j s) \<Longrightarrow> j + length sub \<le> length s"
proof -
  assume ne: "sub \<noteq> []" and p: "prefix sub (drop j s)"
  from p have "length sub \<le> length s - j"
    using prefix_length_le by fastforce
  moreover from ne p have "j < length s"
    by (cases "j < length s") auto
  ultimately show ?thesis by simp
qed

lemma py_find_Some_iff:
  "py_find sub s = Some i \<longleftrightarrow>
     i \<le> length s \<and> prefix sub (drop i s) \<and> (\<forall>j<i. \<not> prefix sub (drop j s))"
proof (induction s arbitrary: i)
  case Nil
  then show ?case by auto
next
  case (Cons c cs)
  show ?case
  proof (cases "prefix sub (c # cs)")
    case True
    then show ?thesis by fastforce
  next
    case False
    have "(\<exists>k. py_find sub cs = Some k \<and> i = Suc k) \<longleftrightarrow>
          i \<le> length (c # cs) \<and> prefix sub (drop i (c # cs)) \<and> (\<forall>j<i. \<not> prefix sub (drop j (c # cs)))"
    proof (cases i)
      case 0
      then show ?thesis using False by simp
    next
      case (Suc k)
      have "(\<forall>j<Suc k. \<not> prefix sub (drop j (c # cs))) \<longleftrightarrow> (\<forall>j<k. \<not> prefix sub (drop j cs))"
        using False by (auto simp: less_Suc_eq_0_disj)
      then show ?thesis using Suc Cons.IH [of k] by simp
    qed
    then show ?thesis using False by (auto simp: )
  qed
qed

lemma py_find_None_iff:
  "py_find sub s = None \<longleftrightarrow> (\<forall>j\<le>length s. \<not> prefix sub (drop j s))"
proof (induction s)
  case Nil
  then show ?case by auto
next
  case (Cons c cs)
  have "(\<forall>j\<le>Suc (length cs). \<not> prefix sub (drop j (c # cs))) \<longleftrightarrow>
        \<not> prefix sub (c # cs) \<and> (\<forall>j\<le>length cs. \<not> prefix sub (drop j cs))"
  proof (intro iffI conjI allI impI)
    fix j assume a: "\<not> prefix sub (c # cs) \<and> (\<forall>j\<le>length cs. \<not> prefix sub (drop j cs))"
      and j: "j \<le> Suc (length cs)"
    show "\<not> prefix sub (drop j (c # cs))"
      using a j by (cases j) auto
  qed force+
  then show ?case using Cons by simp
qed

lemma position_or_end_le: "position_or_end sub s \<le> length s"
  by (auto simp: position_or_end_def py_find_Some_iff split: option.splits)

lemma prefix_drop_take:
  assumes "sub \<noteq> []"
  shows "prefix sub (drop j (take a s)) \<longleftrightarrow> prefix sub (drop j s) \<and> j + length sub \<le> a"
proof
  assume p: "prefix sub (drop j (take a s))"
  then have "j + length sub \<le> length (take a s)"
    using assms prefix_drop_bound by blast
  moreover have "prefix (drop j (take a s)) (drop j s)"
    by (metis append_take_drop_id drop_append prefixI)
  ultimately show "prefix sub (drop j s) \<and> j + length sub \<le> a"
    using p by (auto intro: prefix_order.trans)
next
  assume h: "prefix sub (drop j s) \<and> j + length sub \<le> a"
  then obtain t where t: "drop j s = sub @ t" by (auto simp: prefix_def)
  have "drop j (take a s) = take (a - j) (drop j s)"
    by (simp add: drop_take)
  also have "\<dots> = sub @ take (a - j - length sub) t"
    using h t by simp
  finally show "prefix sub (drop j (take a s))" by simp
qed

text \<open>The first two parts of a split, in terms of the positions of the separator.\<close>

lemma py_split_parts_unfold:
  "sep \<noteq> [] \<Longrightarrow>
   py_split_parts sep s =
     take (position_or_end sep s) s #
       (case py_find sep s of
          None \<Rightarrow> []
        | Some i \<Rightarrow> py_split_parts sep (drop (i + length sep) s))"
  by (subst py_split_parts.simps) (simp add: position_or_end_def split: option.splits)

lemma py_split_parts_hd:
  "sep \<noteq> [] \<Longrightarrow> py_index (py_split_parts sep s) 0 = Inr (take (position_or_end sep s) s)"
  by (subst py_split_parts_unfold) (simp_all add: py_index_def)

lemma py_split_parts_second:
  assumes "sep \<noteq> []" and "py_find sep s = Some i"
  shows "py_index (py_split_parts sep s) 1 =
           Inr (take (position_or_end sep (drop (i + length sep) s)) (drop (i + length sep) s))"
proof -
  let ?rest = "drop (i + length sep) s"
  have "py_split_parts sep s = take i s # py_split_parts sep ?rest"
    using assms by (subst py_split_parts_unfold) (simp_all add: position_or_end_def)
  moreover have "py_split_parts sep ?rest = take (position_or_end sep ?rest) ?rest #
       (case py_find sep ?rest of None \<Rightarrow> [] | Some i \<Rightarrow> py_split_parts sep (drop (i + length sep) ?rest))"
    using assms(1) by (rule py_split_parts_unfold)
  ultimately show ?thesis
    by (simp add: py_index_def)
qed

text \<open>
  An occurrence of \<open>ASSESSMENT:\<close> that starts before an occurrence of \<open>SCORES:\<close> ends
  before it: the two markers cannot overlap.
\<close>

lemma markers_do_not_overlap:
  assumes s: "prefix ''SCORES:'' (drop a r)" and p: "prefix ''ASSESSMENT:'' (drop b r)" and "b < a"
  shows "b + 11 \<le> a"
proof (rule ccontr)
  assume "\<not> b + 11 \<le> a"
  then have "a = b + (a - b)" and "a - b = 1 \<or> a - b = 2 \<or> a - b = 3 \<or> a - b = 4 \<or> a - b = 5
      \<or> a - b = 6 \<or> a - b = 7 \<or> a - b = 8 \<or> a - b = 9 \<or> a - b = 10"
    using \<open>b < a\<close> by arith+
  then obtain d where d: "a = b + d" "d \<in> {1,2,3,4,5,6,7,8,9,10}"
    by blast
  from p obtain t where t: "drop b r = ''ASSESSMENT:'' @ t" by (auto simp: prefix_def)
  have "drop a r = drop d (drop b r)"
    using d by (simp add: add.commute)
  then have "prefix ''SCORES:'' (drop d (''ASSESSMENT:'' @ t))"
    using s t by simp
  then show False
    using d(2) by auto
qed

lemma assessment_in_scores_section:
  "position_or_end ''ASSESSMENT:'' (take (position_or_end ''SCORES:'' rest) rest) =
     min (position_or_end ''SCORES:'' rest) (position_or_end ''ASSESSMENT:'' rest)"
proof -
  define a where "a = position_or_end ''SCORES:'' rest"
  define b where "b = position_or_end ''ASSESSMENT:'' rest"
  have ne: "''ASSESSMENT:'' \<noteq> []" by simp
  have len: "length ''ASSESSMENT:'' = 11" by simp
  have a_le: "a \<le> length rest"
    unfolding a_def by (rule position_or_end_le)
  have occ: "prefix ''ASSESSMENT:'' (drop j (take a rest)) \<longleftrightarrow>
             prefix ''ASSESSMENT:'' (drop j rest) \<and> j + 11 \<le> a" for j
    using prefix_drop_take [OF ne, of j a rest] by (simp only: len)
  have fits: "j + 11 \<le> a" if "prefix ''ASSESSMENT:'' (drop j rest)" and "j < a" for j
  proof (cases "py_find ''SCORES:'' rest")
    case None
    then have "a = length rest" by (simp add: a_def position_or_end_def)
    then show ?thesis
      using prefix_drop_bound [OF ne that(1)] by (simp only: len)
  next
    case (Some i)
    then have "a = i" by (simp add: a_def position_or_end_def)
    then have "prefix ''SCORES:'' (drop a rest)"
      using Some by (simp add: py_find_Some_iff)
    then show ?thesis
      using that by (rule markers_do_not_overlap)
  qed
  have "position_or_end ''ASSESSMENT:'' (take a rest) = min a b"
  proof (cases "py_find ''ASSESSMENT:'' (take a rest)")
    case None
    then have no: "\<not> prefix ''ASSESSMENT:'' (drop j (take a rest))" if "j \<le> a" for j
      using that a_le by (simp add: py_find_None_iff)
    have "a \<le> b"
    proof (cases "py_find ''ASSESSMENT:'' rest")
      case None
      then show ?thesis using a_le by (simp add: b_def position_or_end_def)
    next
      case (Some k)
      then have k: "b = k" "prefix ''ASSESSMENT:'' (drop k rest)"
        by (simp add: b_def position_or_end_def, simp add: py_find_Some_iff)
      show ?thesis
      proof (rule ccontr)
        assume "\<not> a \<le> b"
        then have "k < a" using k by simp
        then have "k + 11 \<le> a" using fits k by blast
        then show False using no [of k] occ [of k] k by simp
      qed
    qed
    moreover have "position_or_end ''ASSESSMENT:'' (take a rest) = a"
      using None a_le by (simp add: position_or_end_def)
    ultimately show ?thesis by simp
  next
    case (Some k)
    then have k: "prefix ''ASSESSMENT:'' (drop k rest)" "k + 11 \<le> a"
      and first: "\<forall>j<k. \<not> prefix ''ASSESSMENT:'' (drop j (take a rest))"
      using occ [of k] by (simp_all add: py_find_Some_iff)
    have "\<not> prefix ''ASSESSMENT:'' (drop j rest)" if "j < k" for j
      using first that occ [of j] k(2) by auto
    then have "py_find ''ASSESSMENT:'' rest = Some k"
      using k a_le by (simp add: py_find_Some_iff)
    then have "b = k" by (simp add: b_def position_or_end_def)
    moreover have "position_or_end ''ASSESSMENT:'' (take a rest) = k"
      using Some by (simp add: position_or_end_def)
    ultimately show ?thesis using k(2) by simp
  qed
  then show ?thesis by (simp only: a_def b_def)
qed

text \<open>What the two parsing steps compute, by positions of the markers.\<close>

lemma extract_accuracy_score_eq:
  "extract_accuracy_score qa =
     (case py_find ''SCORES:'' qa of
        None \<Rightarrow> ''N/A''
      | Some i \<Rightarrow>
          py_strip (take (min (position_or_end ''SCORES:'' (drop (i + 7) qa))
                              (position_or_end ''ASSESSMENT:'' (drop (i + 7) qa)))
                      (drop (i + 7) qa)))"
proof (cases "py_find ''SCORES:'' qa")
  case None
  then show ?thesis by (simp add: extract_accuracy_score_def py_in_def)
next
  case (Some i)
  let ?rest = "drop (i + 7) qa"
  let ?a = "position_or_end ''SCORES:'' ?rest"
  have len: "length ''SCORES:'' = 7" by simp
  have ne: "''SCORES:'' \<noteq> []" and ne': "''ASSESSMENT:'' \<noteq> []" by simp_all
  note second = py_split_parts_second [OF ne Some, unfolded len]
  have "py_index (py_split_parts ''ASSESSMENT:'' (take ?a ?rest)) 0 =
          Inr (take (position_or_end ''ASSESSMENT:'' (take ?a ?rest)) (take ?a ?rest))"
    using ne' by (rule py_split_parts_hd)
  also have "\<dots> = Inr (take (min ?a (position_or_end ''ASSESSMENT:'' ?rest)) ?rest)"
    by (simp only: assessment_in_scores_section) simp
  finally have first: "py_index (py_split_parts ''ASSESSMENT:'' (take ?a ?rest)) 0 =
      Inr (take (min ?a (position_or_end ''ASSESSMENT:'' ?rest)) ?rest)" .
  show ?thesis
    using Some second first
    by (simp add: extract_accuracy_score_def py_in_def py_split_def and_then_def)
qed

lemma extract_final_recommendation_eq:
  "extract_final_recommendation qa refined =
     (case py_find ''RECOMMENDATION:'' qa of
        None \<Rightarrow> refined
      | Some i \<Rightarrow>
          py_strip (take (position_or_end ''RECOMMENDATION:'' (drop (i + 15) qa)) (drop (i + 15) qa)))"
proof (cases "py_find ''RECOMMENDATION:'' qa")
  case None
  then show ?thesis by (simp add: extract_final_recommendation_def py_in_def)
next
  case (Some i)
  have len: "length ''RECOMMENDATION:'' = 15" by simp
  have ne: "''RECOMMENDATION:'' \<noteq> []" by simp
  note second = py_split_parts_second [OF ne Some, unfolded len]
  show ?thesis
    using Some second
    by (simp add: extract_final_recommendation_def py_in_def py_split_def and_then_def)
qed


section \<open>Facts about statements and exceptions\<close>

lemmas prog_defs = bind_prog_def try_except_def call_world_def print_line_def return_val_def
  from_result_def call_generate_def

lemma bind_prog_Inr:
  "m s = (Inr x, s1) \<Longrightarrow> bind_prog m f s = f x s1"
  by (simp add: bind_prog_def)

lemma bind_prog_eq_Inr:
  "bind_prog m f s = (Inr y, s') \<longleftrightarrow> (\<exists>x s1. m s = (Inr x, s1) \<and> f x s1 = (Inr y, s'))"
proof (cases "m s")
  case (Pair r s1)
  then show ?thesis by (cases r) (simp_all add: bind_prog_def)
qed

lemma bind_prog_InrE:
  assumes "bind_prog m f s = (Inr y, s')"
  obtains x s1 where "m s = (Inr x, s1)" and "f x s1 = (Inr y, s')"
  using assms by (auto simp: bind_prog_eq_Inr)

lemma bind_print_line:
  "bind_prog (print_line l) f s = f () (s\<lparr>console := console s @ [l]\<rparr>)"
  by (simp add: bind_prog_def print_line_def)

lemma try_except_Inr:
  "body s = (Inr x, s1) \<Longrightarrow> try_except body handler s = (Inr x, s1)"
  by (simp add: try_except_def)

lemma try_except_Inl:
  "body s = (Inl e, s1) \<Longrightarrow> try_except body handler s = handler e s1"
  by (simp add: try_except_def)

lemma call_world_total:
  assumes "\<forall>k w. \<exists>x w'. f k w = (Inr x, w')"
  shows "\<exists>x s'. call_world (f k) s = (Inr x, s')"
proof -
  from assms obtain x w' where "f k (world s) = (Inr x, w')" by blast
  then show ?thesis by (simp add: call_world_def)
qed


section \<open>The stages of translate\<close>

lemma crew_except_apply:
  "crew_except initial e s =
     (Inr (''Multi-agent analysis failed'', initial, ''Quality assessment failed: '' @ message e),
      s\<lparr>console := console s @ [CrewExecutionFailed (message e)]\<rparr>)"
  by (simp add: crew_except_def bind_prog_def print_line_def return_val_def)

lemma crew_stage_returns:
  "\<exists>x s'. try_except (crew_try_body self initial ct rt qt) (crew_except initial) s = (Inr x, s')"
proof (cases "crew_try_body self initial ct rt qt s")
  case (Pair r s1)
  show ?thesis
  proof (cases r)
    case (Inl e)
    with Pair have "try_except (crew_try_body self initial ct rt qt) (crew_except initial) s =
        crew_except initial e s1"
      by (simp only: try_except_Inl)
    then show ?thesis
      by (simp only: crew_except_apply) blast
  next
    case (Inr x)
    with Pair have "try_except (crew_try_body self initial ct rt qt) (crew_except initial) s =
        (Inr x, s1)"
      by (simp only: try_except_Inr)
    then show ?thesis by blast
  qed
qed

lemma translate_after_prelude:
  assumes "translate_prelude self text src tgt s = (Inr (initial, ct, rt, qt), s1)"
    and "try_except (crew_try_body self initial ct rt qt) (crew_except initial) s1 = (Inr parsed, s2)"
  shows "translate self text src tgt s = (Inr (assemble text src tgt initial parsed), s2)"
proof -
  obtain c rf q where p: "parsed = (c, rf, q)"
    by (cases parsed)
  show ?thesis
    using assms unfolding translate_def p assemble_def
    by (simp add: bind_prog_def return_val_def)
qed

lemma translate_prelude_raises:
  assumes "translate_prelude self text src tgt s = (Inl e, s1)"
  shows "translate self text src tgt s = (Inl e, s1)"
  using assms unfolding translate_def by (simp add: bind_prog_def)

text \<open>
  \<open>translate\<close> raises exactly when its part before the \<open>try\<close> raises; otherwise it
  returns the record assembled from the outcome of the \<open>try\<close> statement.
\<close>

lemma translate_cases:
  obtains (raises) e s1 where
      "translate_prelude self text src tgt s = (Inl e, s1)"
      "translate self text src tgt s = (Inl e, s1)"
  | (returns) initial ct rt qt s1 parsed s2 where
      "translate_prelude self text src tgt s = (Inr (initial, ct, rt, qt), s1)"
      "try_except (crew_try_body self initial ct rt qt) (crew_except initial) s1 = (Inr parsed, s2)"
      "translate self text src tgt s = (Inr (assemble text src tgt initial parsed), s2)"
proof (cases "translate_prelude self text src tgt s")
  case (Pair r s1)
  show ?thesis
  proof (cases r)
    case (Inl e)
    with Pair have p: "translate_prelude self text src tgt s = (Inl e, s1)" by simp
    show ?thesis by (rule raises [OF p translate_prelude_raises [OF p]])
  next
    case (Inr x)
    obtain initial ct rt qt where x: "x = (initial, ct, rt, qt)" by (cases x) auto
    from Pair Inr x have p: "translate_prelude self text src tgt s = (Inr (initial, ct, rt, qt), s1)"
      by simp
    obtain parsed s2 where
      c: "try_except (crew_try_body self initial ct rt qt) (crew_except initial) s1 = (Inr parsed, s2)"
      using crew_stage_returns [of self initial ct rt qt s1] by blast
    show ?thesis by (rule returns [OF p c translate_after_prelude [OF p c]])
  qed
qed

lemma assemble_simps:
  "original_text (assemble t src tgt initial parsed) = t"
  "source_lang (assemble t src tgt initial parsed) = src"
  "target_lang (assemble t src tgt initial parsed) = tgt"
  "initial_translation (assemble t src tgt initial parsed) = initial"
  "context_analysis (assemble t src tgt initial (c, r, q)) = c"
  "refined_translation (assemble t src tgt initial (c, r, q)) = r"
  "quality_assessment (assemble t src tgt initial (c, r, q)) = q"
  "accuracy_score (assemble t src tgt initial (c, r, q)) = extract_accuracy_score q"
  "final_recommendation (assemble t src tgt initial (c, r, q)) = extract_final_recommendation q r"
  by (simp_all add: assemble_def split: prod.splits)

lemma translate_Inr_assemble:
  assumes "translate self t src tgt s = (Inr r, s')"
  obtains initial c rf q where "r = assemble t src tgt initial (c, rf, q)"
proof (cases rule: translate_cases [of self t src tgt s])
  case (raises e s1)
  then show ?thesis using assms by simp
next
  case (returns initial ct rt qt s1 parsed s2)
  then show ?thesis using assms that by (cases parsed) auto
qed

lemma output_or_default: "missing_or_falsy out \<Longrightarrow> output_or out dflt = dflt"
  by (simp add: missing_or_falsy_def output_or_def split: output_attr.splits)

lemma crew_try_body_Inr:
  assumes "crew_try_body self initial ct rt qt s1 = (Inr parsed, s2)"
  shows "parsed =
     (output_or (task_output self ct (world s2)) ''Context analysis not available'',
      output_or (task_output self rt (world s2)) initial,
      output_or (task_output self qt (world s2)) ''Quality assessment not available'')"
proof -
  from assms [unfolded crew_try_body_def] obtain crew sa where
    "bind_prog (print_line ExecutingCrew) (\<lambda>_.
     bind_prog (call_world (crew_kickoff self crew)) (\<lambda>_.
     bind_prog (read_output self ct) (\<lambda>context_out.
     bind_prog (read_output self rt) (\<lambda>refinement_out.
     bind_prog (read_output self qt) (\<lambda>quality_out.
     return_val
       (output_or context_out ''Context analysis not available'',
        output_or refinement_out initial,
        output_or quality_out ''Quality assessment not available'')))))) sa = (Inr parsed, s2)"
    by (rule bind_prog_InrE)
  then obtain u sb where
    "bind_prog (call_world (crew_kickoff self crew)) (\<lambda>_.
     bind_prog (read_output self ct) (\<lambda>context_out.
     bind_prog (read_output self rt) (\<lambda>refinement_out.
     bind_prog (read_output self qt) (\<lambda>quality_out.
     return_val
       (output_or context_out ''Context analysis not available'',
        output_or refinement_out initial,
        output_or quality_out ''Quality assessment not available''))))) sb = (Inr parsed, s2)"
    by (rule bind_prog_InrE)
  then obtain v sc where
    "bind_prog (read_output self ct) (\<lambda>context_out.
     bind_prog (read_output self rt) (\<lambda>refinement_out.
     bind_prog (read_output self qt) (\<lambda>quality_out.
     return_val
       (output_or context_out ''Context analysis not available'',
        output_or refinement_out initial,
        output_or quality_out ''Quality assessment not available'')))) sc = (Inr parsed, s2)"
    by (rule bind_prog_InrE)
  then show ?thesis
    by (simp add: bind_prog_def read_output_def return_val_def) blast
qed


section \<open>The draft translation\<close>

lemma dict_get_lang_mapping:
  "tgt \<in> set (map fst lang_mapping) \<Longrightarrow> dict_get lang_mapping tgt ''fr'' = tgt"
  by (auto simp: lang_mapping_def dict_get_def)

lemma dict_get_default:
  "tgt \<notin> set (map fst lang_mapping) \<Longrightarrow> dict_get lang_mapping tgt ''fr'' = ''fr''"
proof -
  assume "tgt \<notin> set (map fst lang_mapping)"
  then have "map_of lang_mapping tgt = None"
    by (simp add: map_of_eq_None_iff)
  then show ?thesis by (simp add: dict_get_def)
qed

text \<open>The calls of \<open>model.generate\<close> that one draft translation makes.\<close>

lemma draft_generate_calls:
  "generate_calls (snd (get_initial_translation self t src tgt s)) =
     generate_calls s @
       (case tokenizer_set_src_lang self src (world s) of
          (Inl _, _) \<Rightarrow> []
        | (Inr _, w1) \<Rightarrow>
            (case tokenizer_encode self t w1 of
               (Inl _, _) \<Rightarrow> []
             | (Inr enc, _) \<Rightarrow>
                 (case (case tokenizer_get_lang_id self (dict_get lang_mapping tgt ''fr'') of
                          Inr k \<Rightarrow> Inr k
                        | Inl _ \<Rightarrow> tokenizer_get_lang_id self ''fr'') of
                    Inl _ \<Rightarrow> []
                  | Inr bos \<Rightarrow>
                      [\<lparr>inputs = enc, forced_bos_token_id = bos, max_length = 200,
                        num_beams = 4, early_stopping = True, do_sample = False\<rparr>])))"
  by (auto simp: get_initial_translation_def prog_defs Let_def split: prod.splits sum.splits)

text \<open>
  The warning of line 69 is printed only when the tokenizer rejects the mapped target
  language and accepts \<open>'fr'\<close>.
\<close>

lemma draft_console:
  "\<exists>lines. console (snd (get_initial_translation self t src tgt s)) = console s @ lines \<and>
     (LanguageNotSupported tgt \<in> set lines \<longrightarrow>
        (\<exists>e. tokenizer_get_lang_id self (dict_get lang_mapping tgt ''fr'') = Inl e) \<and>
        (\<exists>k. tokenizer_get_lang_id self ''fr'' = Inr k))"
  by (auto simp: get_initial_translation_def prog_defs Let_def split: prod.splits sum.splits)

text \<open>
  For a target language outside \<open>lang_mapping\<close> the mapped language is \<open>'fr'\<close> itself,
  so the warning is never printed, whatever the tokenizer does.
\<close>

lemma no_warning_outside_lang_mapping:
  assumes "tgt \<notin> set (map fst lang_mapping)"
  shows "\<exists>lines. console (snd (get_initial_translation self t src tgt s)) = console s @ lines \<and>
     LanguageNotSupported tgt \<notin> set lines"
proof -
  obtain lines where
    l: "console (snd (get_initial_translation self t src tgt s)) = console s @ lines"
    and w: "LanguageNotSupported tgt \<in> set lines \<longrightarrow>
        (\<exists>e. tokenizer_get_lang_id self (dict_get lang_mapping tgt ''fr'') = Inl e) \<and>
        (\<exists>k. tokenizer_get_lang_id self ''fr'' = Inr k)"
    using draft_console [of self t src tgt s] by blast
  have "LanguageNotSupported tgt \<notin> set lines"
    using w dict_get_default [OF assms] by auto
  with l show ?thesis by blast
qed

lemma draft_returns:
  "\<exists>x s'. get_initial_translation self t src tgt s = (Inr x, s')"
  by (auto simp: get_initial_translation_def prog_defs Let_def split: prod.splits sum.splits)


section \<open>Termination of translate and of the batch loop\<close>

lemma translate_prelude_returns:
  assumes tasks: "\<forall>kwargs w. \<exists>task w'. new_Task self kwargs w = (Inr task, w')"
  shows "\<exists>x s'. translate_prelude self t src tgt s = (Inr x, s')"
proof -
  let ?s0 = "s\<lparr>console := console s @ [StartingTranslation src tgt]\<rparr>"
  let ?s1 = "?s0\<lparr>console := console ?s0 @ [TextToTranslate t]\<rparr>"
  let ?s2 = "?s1\<lparr>console := console ?s1 @ [GettingInitialTranslation]\<rparr>"
  obtain initial s3 where d: "get_initial_translation self t src tgt ?s2 = (Inr initial, s3)"
    using draft_returns by blast
  let ?s4 = "s3\<lparr>console := console s3 @ [InitialTranslation initial]\<rparr>"
  obtain ct s5 where c: "call_world (new_Task self
        \<lparr>description = context_description t src tgt initial,
         agent = context_agent self,
         expected_output = ''Detailed context analysis with cultural and linguistic insights'',
         task_context = None\<rparr>) ?s4 = (Inr ct, s5)"
    using call_world_total [OF tasks] by blast
  obtain rt s6 where r: "call_world (new_Task self
        \<lparr>description = refinement_description t tgt initial,
         agent = translator_agent self,
         expected_output = ''Refined, natural translation that incorporates context insights'',
         task_context = Some [ct]\<rparr>) s5 = (Inr rt, s6)"
    using call_world_total [OF tasks] by blast
  obtain qt s7 where q: "call_world (new_Task self
        \<lparr>description = quality_description t src tgt initial,
         agent = quality_agent self,
         expected_output = ''Comprehensive quality assessment with scores and recommendations'',
         task_context = Some [ct, rt]\<rparr>) s6 = (Inr qt, s7)"
    using call_world_total [OF tasks] by blast
  have "translate_prelude self t src tgt s = (Inr (initial, ct, rt, qt), s7)"
    using d c r q
    by (simp add: translate_prelude_def bind_prog_def print_line_def return_val_def)
  then show ?thesis by blast
qed

lemma translate_returns:
  assumes "\<forall>kwargs w. \<exists>task w'. new_Task self kwargs w = (Inr task, w')"
  shows "\<exists>r s'. translate self t src tgt s = (Inr r, s')"
proof (cases rule: translate_cases [of self t src tgt s])
  case (raises e s1)
  then show ?thesis
    using translate_prelude_returns [OF assms, of t src tgt s] by simp
next
  case (returns initial ct rt qt s1 parsed s2)
  then show ?thesis by blast
qed

lemma batch_loop_returns:
  assumes "\<forall>kwargs w. \<exists>task w'. new_Task self kwargs w = (Inr task, w')"
  shows "\<exists>rs s'. batch_loop self src tgt n i texts acc s = (Inr rs, s')"
proof (induction texts arbitrary: i acc s)
  case Nil
  then show ?case by (simp add: return_val_def)
next
  case (Cons t rest)
  obtain r s1 where
    "translate self t src tgt (s\<lparr>console := console s @ [ProcessingBatchItem i n]\<rparr>) = (Inr r, s1)"
    using translate_returns [OF assms] by blast
  then show ?case
    using Cons.IH [of "Suc i" "acc @ [r]" s1]
    by (simp add: bind_prog_def print_line_def)
qed

lemma batch_loop_in_order:
  assumes "batch_loop self src tgt n i texts acc s = (Inr out, s')"
  shows "\<exists>rs ss. out = acc @ rs \<and> length rs = length texts \<and>
     length ss = Suc (length texts) \<and> ss ! 0 = s \<and> ss ! length texts = s' \<and>
     (\<forall>k<length texts.
        translate self (texts ! k) src tgt
          ((ss ! k)\<lparr>console := console (ss ! k) @ [ProcessingBatchItem (i + k) n]\<rparr>)
        = (Inr (rs ! k), ss ! Suc k))"
  using assms
proof (induction texts arbitrary: i acc s)
  case Nil
  then have "out = acc" and "s' = s" by (simp_all add: return_val_def)
  then have "out = acc @ [] \<and> length ([] :: TranslationResult list) = length ([] :: string list) \<and>
     length [s] = Suc (length ([] :: string list)) \<and> [s] ! 0 = s \<and> [s] ! length ([] :: string list) = s'"
    by simp
  then show ?case by (intro exI [of _ "[]"] exI [of _ "[s]"]) simp
next
  case (Cons t rest)
  let ?s0 = "s\<lparr>console := console s @ [ProcessingBatchItem i n]\<rparr>"
  from Cons.prems have
    "bind_prog (translate self t src tgt)
       (\<lambda>result. batch_loop self src tgt n (Suc i) rest (acc @ [result])) ?s0 = (Inr out, s')"
    by (simp add: bind_print_line)
  then obtain r s1 where
    tr: "translate self t src tgt ?s0 = (Inr r, s1)" and
    rest: "batch_loop self src tgt n (Suc i) rest (acc @ [r]) s1 = (Inr out, s')"
    by (rule bind_prog_InrE)
  from Cons.IH [OF rest] obtain rs ss where
    ih: "out = (acc @ [r]) @ rs" "length rs = length rest" "length ss = Suc (length rest)"
      "ss ! 0 = s1" "ss ! length rest = s'"
      "\<forall>k<length rest.
        translate self (rest ! k) src tgt
          ((ss ! k)\<lparr>console := console (ss ! k) @ [ProcessingBatchItem (Suc i + k) n]\<rparr>)
        = (Inr (rs ! k), ss ! Suc k)"
    by blast
  have step: "translate self ((t # rest) ! k) src tgt
          (((s # ss) ! k)\<lparr>console := console ((s # ss) ! k) @ [ProcessingBatchItem (i + k) n]\<rparr>)
        = (Inr ((r # rs) ! k), (s # ss) ! Suc k)" if "k < length (t # rest)" for k
  proof (cases k)
    case 0
    then show ?thesis using tr ih(4) by simp
  next
    case (Suc j)
    then show ?thesis using ih(6) that by simp
  qed
  have "out = acc @ (r # rs) \<and> length (r # rs) = length (t # rest) \<and>
     length (s # ss) = Suc (length (t # rest)) \<and> (s # ss) ! 0 = s \<and>
     (s # ss) ! length (t # rest) = s'"
    using ih by simp
  with step show ?case
    by (intro exI [of _ "r # rs"] exI [of _ "s # ss"]) blast
qed


section \<open>Runs with the test doubles\<close>

lemmas parse_defs = assemble_def output_or_def extract_accuracy_score_eq
  extract_final_recommendation_eq position_or_end_def py_strip_def py_isspace_def

lemma stub_draft:
  "get_initial_translation (stub_workflow ok failure outs) t src ''fr'' s =
     (Inr (''draft:'' @ t),
      s\<lparr>generate_calls := generate_calls s @
          [\<lparr>inputs = t, forced_bos_token_id = 128028, max_length = 200,
            num_beams = 4, early_stopping = True, do_sample = False\<rparr>]\<rparr>)"
  by (simp add: get_initial_translation_def stub_workflow_def prog_defs dict_get_def
      lang_mapping_def stub_lang_ids_def py_index_def)

lemma stub_prelude:
  "translate_prelude (stub_workflow True failure outs) t src ''fr'' s =
     (Inr (''draft:'' @ t, 0, 1, 2),
      s\<lparr>console := console s @
          [StartingTranslation src ''fr'', TextToTranslate t, GettingInitialTranslation,
           InitialTranslation (''draft:'' @ t)],
        generate_calls := generate_calls s @
          [\<lparr>inputs = t, forced_bos_token_id = 128028, max_length = 200,
            num_beams = 4, early_stopping = True, do_sample = False\<rparr>]\<rparr>)"
  unfolding translate_prelude_def
  by (simp add: bind_prog_def print_line_def stub_draft)
    (simp add: stub_workflow_def call_world_def return_val_def)

lemma stub_prelude_raises:
  "translate_prelude (stub_workflow False failure outs) t src ''fr'' s =
     (Inl (Exception ''validation error''),
      s\<lparr>console := console s @
          [StartingTranslation src ''fr'', TextToTranslate t, GettingInitialTranslation,
           InitialTranslation (''draft:'' @ t)],
        generate_calls := generate_calls s @
          [\<lparr>inputs = t, forced_bos_token_id = 128028, max_length = 200,
            num_beams = 4, early_stopping = True, do_sample = False\<rparr>]\<rparr>)"
  unfolding translate_prelude_def
  by (simp add: bind_prog_def print_line_def stub_draft)
    (simp add: stub_workflow_def call_world_def return_val_def)

lemma stub_crew_runs:
  "crew_try_body (stub_workflow ok None (a, b, c)) initial 0 1 2 s =
     (Inr (output_or a ''Context analysis not available'', output_or b initial,
           output_or c ''Quality assessment not available''),
      s\<lparr>world := True, console := console s @ [ExecutingCrew]\<rparr>)"
  by (simp add: crew_try_body_def stub_workflow_def prog_defs read_output_def)

lemma stub_crew_raises:
  "crew_try_body (stub_workflow ok (Some e) outs) initial 0 1 2 s =
     (Inl e, s\<lparr>console := console s @ [ExecutingCrew]\<rparr>)"
  by (simp add: crew_try_body_def stub_workflow_def prog_defs read_output_def)

lemma stub_translate_runs:
  "translate (stub_workflow True None (a, b, c)) t src ''fr'' s =
     (Inr (assemble t src ''fr'' (''draft:'' @ t)
        (output_or a ''Context analysis not available'', output_or b (''draft:'' @ t),
         output_or c ''Quality assessment not available'')),
      s\<lparr>world := True,
        console := console s @
          [StartingTranslation src ''fr'', TextToTranslate t, GettingInitialTranslation,
           InitialTranslation (''draft:'' @ t), ExecutingCrew],
        generate_calls := generate_calls s @
          [\<lparr>inputs = t, forced_bos_token_id = 128028, max_length = 200,
            num_beams = 4, early_stopping = True, do_sample = False\<rparr>]\<rparr>)"
proof -
  let ?s1 = "s\<lparr>console := console s @
          [StartingTranslation src ''fr'', TextToTranslate t, GettingInitialTranslation,
           InitialTranslation (''draft:'' @ t)],
        generate_calls := generate_calls s @
          [\<lparr>inputs = t, forced_bos_token_id = 128028, max_length = 200,
            num_beams = 4, early_stopping = True, do_sample = False\<rparr>]\<rparr>"
  have p: "translate_prelude (stub_workflow True None (a, b, c)) t src ''fr'' s =
      (Inr (''draft:'' @ t, 0, 1, 2), ?s1)"
    by (rule stub_prelude)
  have c: "try_except (crew_try_body (stub_workflow True None (a, b, c)) (''draft:'' @ t) 0 1 2)
        (crew_except (''draft:'' @ t)) ?s1 =
      (Inr (output_or a ''Context analysis not available'', output_or b (''draft:'' @ t),
            output_or c ''Quality assessment not available''),
       ?s1\<lparr>world := True, console := console ?s1 @ [ExecutingCrew]\<rparr>)"
    by (simp only: try_except_def stub_crew_runs) simp
  from translate_after_prelude [OF p c] show ?thesis by simp
qed

lemma stub_translate_crew_raises:
  "translate (stub_workflow True (Some e) outs) t src ''fr'' s =
     (Inr (assemble t src ''fr'' (''draft:'' @ t)
        (''Multi-agent analysis failed'', ''draft:'' @ t,
         ''Quality assessment failed: '' @ message e)),
      s\<lparr>console := console s @
          [StartingTranslation src ''fr'', TextToTranslate t, GettingInitialTranslation,
           InitialTranslation (''draft:'' @ t), ExecutingCrew, CrewExecutionFailed (message e)],
        generate_calls := generate_calls s @
          [\<lparr>inputs = t, forced_bos_token_id = 128028, max_length = 200,
            num_beams = 4, early_stopping = True, do_sample = False\<rparr>]\<rparr>)"
proof -
  let ?s1 = "s\<lparr>console := console s @
          [StartingTranslation src ''fr'', TextToTranslate t, GettingInitialTranslation,
           InitialTranslation (''draft:'' @ t)],
        generate_calls := generate_calls s @
          [\<lparr>inputs = t, forced_bos_token_id = 128028, max_length = 200,
            num_beams = 4, early_stopping = True, do_sample = False\<rparr>]\<rparr>"
  have p: "translate_prelude (stub_workflow True (Some e) outs) t src ''fr'' s =
      (Inr (''draft:'' @ t, 0, 1, 2), ?s1)"
    by (rule stub_prelude)
  have c: "try_except (crew_try_body (stub_workflow True (Some e) outs) (''draft:'' @ t) 0 1 2)
        (crew_except (''draft:'' @ t)) ?s1 =
      (Inr (''Multi-agent analysis failed'', ''draft:'' @ t,
            ''Quality assessment failed: '' @ message e),
       ?s1\<lparr>console := console ?s1 @ [ExecutingCrew, CrewExecutionFailed (message e)]\<rparr>)"
    by (simp only: try_except_def stub_crew_raises crew_except_apply) simp
  from translate_after_prelude [OF p c] show ?thesis by simp
qed

lemma stub_translate_raises:
  "translate (stub_workflow False failure outs) t src ''fr'' s =
     (Inl (Exception ''validation error''),
      s\<lparr>console := console s @
          [StartingTranslation src ''fr'', TextToTranslate t, GettingInitialTranslation,
           InitialTranslation (''draft:'' @ t)],
        generate_calls := generate_calls s @
          [\<lparr>inputs = t, forced_bos_token_id = 128028, max_length = 200,
            num_beams = 4, early_stopping = True, do_sample = False\<rparr>]\<rparr>)"
  by (rule translate_prelude_raises) (rule stub_prelude_raises)


section \<open>C1: the accuracy score\<close>

text \<open>
  The statement "without both markers the score is \<open>N/A\<close>" fails. The quality assessment
  \<open>SCORES: 8 SCORES: 9\<close> has no \<open>ASSESSMENT:\<close> marker, and \<open>translate\<close> returns the
  accuracy score \<open>8\<close>: the \<open>if\<close> of line 200 asks for \<open>SCORES:\<close> only, and
  \<open>split("ASSESSMENT:")[0]\<close> is the whole section when that marker is missing. The run also
  shows that a second \<open>SCORES:\<close> ends the section.
\<close>

theorem accuracy_score_without_assessment_marker:
  "\<not> py_in ''ASSESSMENT:'' ''SCORES: 8 SCORES: 9'' \<and>
   fst (translate (stub_workflow True None
          (Attribute True ''ctx'', Attribute True ''ref'', Attribute True ''SCORES: 8 SCORES: 9''))
        ''Hello'' ''en'' ''fr'' fresh) =
     Inr \<lparr>original_text = ''Hello'', source_lang = ''en'', target_lang = ''fr'',
          initial_translation = ''draft:Hello'', context_analysis = ''ctx'',
          refined_translation = ''ref'', accuracy_score = ''8'',
          quality_assessment = ''SCORES: 8 SCORES: 9'', final_recommendation = ''ref''\<rparr>"
  by (simp add: stub_translate_runs parse_defs py_in_def)

text \<open>
  C1, as the code has it: if the quality assessment does not contain \<open>SCORES:\<close>, the
  accuracy score of the result is \<open>N/A\<close>. Otherwise it is the trimmed text that starts
  right after the first \<open>SCORES:\<close> and stops at the earliest following \<open>SCORES:\<close> or
  \<open>ASSESSMENT:\<close> marker, or at the end of the assessment when neither follows.
\<close>

theorem accuracy_score_up_to_next_marker:
  assumes "translate self t src tgt s = (Inr r, s')"
  shows "accuracy_score r =
     (case py_find ''SCORES:'' (quality_assessment r) of
        None \<Rightarrow> ''N/A''
      | Some i \<Rightarrow>
          py_strip (take (min (position_or_end ''SCORES:'' (drop (i + 7) (quality_assessment r)))
                              (position_or_end ''ASSESSMENT:'' (drop (i + 7) (quality_assessment r))))
                      (drop (i + 7) (quality_assessment r))))"
proof -
  from assms obtain initial c rf q where "r = assemble t src tgt initial (c, rf, q)"
    by (rule translate_Inr_assemble)
  then show ?thesis
    by (simp only: assemble_simps extract_accuracy_score_eq)
qed

text \<open>A run in which both markers are present, in the order the prompt asks for.\<close>

theorem accuracy_score_up_to_next_marker_witness:
  "\<exists>r s'. translate (stub_workflow True None
          (Attribute True ''ctx'', Attribute True ''ref'',
           Attribute True ''SCORES: Accuracy: 9/10 ASSESSMENT: fluent RECOMMENDATION: use refined''))
        ''Hello'' ''en'' ''fr'' fresh = (Inr r, s') \<and>
     quality_assessment r = ''SCORES: Accuracy: 9/10 ASSESSMENT: fluent RECOMMENDATION: use refined'' \<and>
     accuracy_score r = ''Accuracy: 9/10''"
proof -
  obtain r s' where run: "translate (stub_workflow True None
          (Attribute True ''ctx'', Attribute True ''ref'',
           Attribute True ''SCORES: Accuracy: 9/10 ASSESSMENT: fluent RECOMMENDATION: use refined''))
        ''Hello'' ''en'' ''fr'' fresh = (Inr r, s')"
    and qa: "quality_assessment r =
        ''SCORES: Accuracy: 9/10 ASSESSMENT: fluent RECOMMENDATION: use refined''"
    by (simp add: stub_translate_runs assemble_def output_or_def)
  from accuracy_score_up_to_next_marker [OF run] have "accuracy_score r = ''Accuracy: 9/10''"
    by (simp add: qa position_or_end_def py_strip_def py_isspace_def)
  with run qa show ?thesis by blast
qed


section \<open>C2: the final recommendation\<close>

text \<open>
  The statement "the trimmed suffix after the marker" fails when the marker occurs twice.
  In \<open>RECOMMENDATION: keep RECOMMENDATION: revise\<close> the markers start at 0 and at 21; the
  trimmed suffixes after them are \<open>keep RECOMMENDATION: revise\<close> and \<open>revise\<close>, and
  \<open>translate\<close> returns \<open>keep\<close>, which is \<open>split("RECOMMENDATION:")[1]\<close>.
\<close>

theorem final_recommendation_with_two_markers:
  "py_find ''RECOMMENDATION:'' ''RECOMMENDATION: keep RECOMMENDATION: revise'' = Some 0 \<and>
   py_find ''RECOMMENDATION:'' (drop 15 ''RECOMMENDATION: keep RECOMMENDATION: revise'') = Some 6 \<and>
   py_strip (drop 15 ''RECOMMENDATION: keep RECOMMENDATION: revise'') = ''keep RECOMMENDATION: revise'' \<and>
   py_strip (drop 36 ''RECOMMENDATION: keep RECOMMENDATION: revise'') = ''revise'' \<and>
   fst (translate (stub_workflow True None
          (Attribute True ''ctx'', Attribute True ''ref'',
           Attribute True ''RECOMMENDATION: keep RECOMMENDATION: revise''))
        ''Hello'' ''en'' ''fr'' fresh) =
     Inr \<lparr>original_text = ''Hello'', source_lang = ''en'', target_lang = ''fr'',
          initial_translation = ''draft:Hello'', context_analysis = ''ctx'',
          refined_translation = ''ref'', accuracy_score = ''N/A'',
          quality_assessment = ''RECOMMENDATION: keep RECOMMENDATION: revise'',
          final_recommendation = ''keep''\<rparr>"
  by (simp add: stub_translate_runs parse_defs)

text \<open>
  C2, as the code has it: if the quality assessment does not contain \<open>RECOMMENDATION:\<close>,
  the final recommendation of the result is its refined translation. Otherwise it is the
  trimmed text that starts right after the first \<open>RECOMMENDATION:\<close> and stops at the next
  \<open>RECOMMENDATION:\<close>, or at the end of the assessment when the marker occurs once (then
  it is the trimmed suffix).
\<close>

theorem final_recommendation_up_to_next_marker:
  assumes "translate self t src tgt s = (Inr r, s')"
  shows "final_recommendation r =
     (case py_find ''RECOMMENDATION:'' (quality_assessment r) of
        None \<Rightarrow> refined_translation r
      | Some i \<Rightarrow>
          py_strip (take (position_or_end ''RECOMMENDATION:'' (drop (i + 15) (quality_assessment r)))
                      (drop (i + 15) (quality_assessment r))))"
proof -
  from assms obtain initial c rf q where "r = assemble t src tgt initial (c, rf, q)"
    by (rule translate_Inr_assemble)
  then show ?thesis
    by (simp only: assemble_simps extract_final_recommendation_eq)
qed

text \<open>A run with a single marker: the recommendation is the trimmed suffix.\<close>

theorem final_recommendation_up_to_next_marker_witness:
  "\<exists>r s'. translate (stub_workflow True None
          (Attribute True ''ctx'', Attribute True ''ref'',
           Attribute True ''SCORES: Accuracy: 9/10 ASSESSMENT: fluent RECOMMENDATION: use refined''))
        ''Hello'' ''en'' ''fr'' fresh = (Inr r, s') \<and>
     quality_assessment r = ''SCORES: Accuracy: 9/10 ASSESSMENT: fluent RECOMMENDATION: use refined'' \<and>
     final_recommendation r = ''use refined''"
proof -
  obtain r s' where run: "translate (stub_workflow True None
          (Attribute True ''ctx'', Attribute True ''ref'',
           Attribute True ''SCORES: Accuracy: 9/10 ASSESSMENT: fluent RECOMMENDATION: use refined''))
        ''Hello'' ''en'' ''fr'' fresh = (Inr r, s')"
    and qa: "quality_assessment r =
        ''SCORES: Accuracy: 9/10 ASSESSMENT: fluent RECOMMENDATION: use refined''"
    by (simp add: stub_translate_runs assemble_def output_or_def)
  from final_recommendation_up_to_next_marker [OF run] have "final_recommendation r = ''use refined''"
    by (simp add: qa position_or_end_def py_strip_def py_isspace_def)
  with run qa show ?thesis by blast
qed


section \<open>C3: the fallback when the crew fails\<close>





section \<open>C4: the inputs are passed through\<close>

text \<open>
  C4: every result that \<open>translate\<close> returns has \<open>original_text\<close>, \<open>source_lang\<close> and
  \<open>target_lang\<close> equal to the arguments of the call.
\<close>

theorem translate_passes_inputs_through:
  assumes "translate self t src tgt s = (Inr r, s')"
  shows "original_text r = t \<and> source_lang r = src \<and> target_lang r = tgt"
proof -
  from assms obtain initial c rf q where "r = assemble t src tgt initial (c, rf, q)"
    by (rule translate_Inr_assemble)
  then show ?thesis
    by (simp only: assemble_simps)
qed

theorem translate_passes_inputs_through_witness:
  "\<exists>r s'. translate (stub_workflow True None
          (Attribute True ''ctx'', Attribute True ''ref'', Attribute True ''fine''))
        ''Hello'' ''en'' ''fr'' fresh = (Inr r, s') \<and>
     original_text r = ''Hello'' \<and> source_lang r = ''en'' \<and> target_lang r = ''fr''"
proof -
  obtain r s' where run: "translate (stub_workflow True None
          (Attribute True ''ctx'', Attribute True ''ref'', Attribute True ''fine''))
        ''Hello'' ''en'' ''fr'' fresh = (Inr r, s')"
    by (simp add: stub_translate_runs)
  from translate_passes_inputs_through [OF run] run show ?thesis by blast
qed


section \<open>C5: the batch\<close>

text \<open>
  The statement "the batch always completes all items" fails: the loop of
  \<open>batch_translate\<close> has no \<open>try\<close>, so an exception that leaves \<open>translate\<close> (a
  \<open>Task(...)\<close> that raises) ends the batch at that item and no list is returned.
\<close>

theorem batch_stops_at_escaping_exception:
  "fst (batch_translate (stub_workflow False None
          (Attribute True ''ctx'', Attribute True ''ref'', Attribute True ''fine''))
        [''a'', ''b''] ''en'' ''fr'' fresh) = Inl (Exception ''validation error'')"
  by (simp add: batch_translate_def bind_prog_def print_line_def stub_translate_raises)

text \<open>
  C5, as the code has it. Whenever \<open>batch_translate\<close> returns, the list has the length
  of \<open>texts\<close>, and there are states \<open>ss\<close>, from the initial to the final one, such that
  the \<open>i\<close>-th result is what \<open>translate\<close> returns for the \<open>i\<close>-th text when started in
  \<open>ss ! i\<close> (after the line that announces the item) and \<open>ss ! Suc i\<close> is the state it
  leaves: the items run one after the other, in the order of the input. And
  \<open>batch_translate\<close> does return when no \<open>Task(...)\<close> raises: failures of the draft or
  of the crew are absorbed inside \<open>translate\<close> and stop nothing.
\<close>

theorem batch_translate_in_order:
  "(\<forall>rs s'. batch_translate self texts src tgt s = (Inr rs, s') \<longrightarrow>
      length rs = length texts \<and>
      (\<exists>ss. length ss = Suc (length texts) \<and> ss ! 0 = s \<and> ss ! length texts = s' \<and>
         (\<forall>i<length texts.
            translate self (texts ! i) src tgt
              ((ss ! i)\<lparr>console := console (ss ! i) @
                  [ProcessingBatchItem (Suc i) (length texts)]\<rparr>)
            = (Inr (rs ! i), ss ! Suc i)))) \<and>
   ((\<forall>kwargs w. \<exists>task w'. new_Task self kwargs w = (Inr task, w')) \<longrightarrow>
      (\<exists>rs s'. batch_translate self texts src tgt s = (Inr rs, s')))"
proof (intro conjI allI impI)
  fix rs s'
  assume "batch_translate self texts src tgt s = (Inr rs, s')"
  then have "batch_loop self src tgt (length texts) 1 texts [] s = (Inr rs, s')"
    by (simp add: batch_translate_def)
  from batch_loop_in_order [OF this] obtain rs' ss where
    "rs = [] @ rs'" "length rs' = length texts" "length ss = Suc (length texts)"
    "ss ! 0 = s" "ss ! length texts = s'"
    "\<forall>k<length texts.
        translate self (texts ! k) src tgt
          ((ss ! k)\<lparr>console := console (ss ! k) @ [ProcessingBatchItem (1 + k) (length texts)]\<rparr>)
        = (Inr (rs' ! k), ss ! Suc k)"
    by blast
  then show "length rs = length texts"
    and "\<exists>ss. length ss = Suc (length texts) \<and> ss ! 0 = s \<and> ss ! length texts = s' \<and>
         (\<forall>i<length texts.
            translate self (texts ! i) src tgt
              ((ss ! i)\<lparr>console := console (ss ! i) @
                  [ProcessingBatchItem (Suc i) (length texts)]\<rparr>)
            = (Inr (rs ! i), ss ! Suc i))"
    by auto
next
  assume "\<forall>kwargs w. \<exists>task w'. new_Task self kwargs w = (Inr task, w')"
  then show "\<exists>rs s'. batch_translate self texts src tgt s = (Inr rs, s')"
    unfolding batch_translate_def by (rule batch_loop_returns)
qed

theorem batch_translate_in_order_witness:
  "\<exists>rs s'. batch_translate (stub_workflow True None
          (Attribute True ''ctx'', Attribute True ''ref'', Attribute True ''fine''))
        [''a'', ''b''] ''en'' ''fr'' fresh = (Inr rs, s') \<and> length rs = 2"
proof -
  let ?self = "stub_workflow True None
      (Attribute True ''ctx'', Attribute True ''ref'', Attribute True ''fine'')"
  note th = batch_translate_in_order [of ?self "[''a'', ''b'']" "''en''" "''fr''" fresh]
  have "\<forall>kwargs w. \<exists>task w'. new_Task ?self kwargs w = (Inr task, w')"
    by (simp add: stub_workflow_def)
  with th obtain rs s' where run: "batch_translate ?self [''a'', ''b''] ''en'' ''fr'' fresh = (Inr rs, s')"
    by blast
  with th have "length rs = length [''a'', ''b'']"
    by blast
  with run show ?thesis by auto
qed


section \<open>C6: a target language outside the mapping\<close>

text \<open>
  C6 does not hold of the code. The target \<open>nl\<close> is not a key of \<open>lang_mapping\<close>;
  \<open>lang_mapping.get(target_lang, 'fr')\<close> turns it into \<open>fr\<close> before the inner \<open>try\<close>, the
  tokenizer accepts \<open>fr\<close>, and the handler that prints the warning is never entered. The
  draft is generated with the first token forced to the id of \<open>fr\<close> (128028, although the
  tokenizer knows \<open>nl\<close> as 128065) and nothing is printed.
\<close>

theorem unsupported_target_gets_no_warning:
  "''nl'' \<notin> set (map fst lang_mapping) \<and>
   tokenizer_get_lang_id (stub_workflow True None
       (Attribute True ''ctx'', Attribute True ''ref'', Attribute True ''fine'')) ''nl'' = Inr 128065 \<and>
   get_initial_translation (stub_workflow True None
       (Attribute True ''ctx'', Attribute True ''ref'', Attribute True ''fine''))
     ''Hello'' ''en'' ''nl'' fresh =
     (Inr ''draft:Hello'',
      \<lparr>world = False, console = [],
       generate_calls = [\<lparr>inputs = ''Hello'', forced_bos_token_id = 128028, max_length = 200,
           num_beams = 4, early_stopping = True, do_sample = False\<rparr>]\<rparr>)"
  by (simp add: get_initial_translation_def stub_workflow_def prog_defs dict_get_def
      lang_mapping_def stub_lang_ids_def py_index_def fresh_def)


section \<open>C7: the language-model client never raises\<close>




section \<open>C8: the arguments of the generation\<close>

text \<open>
  The statement "for every pair of languages the draft step invokes the generation model"
  fails: setting the source language is the first statement of the \<open>try\<close>, and when the
  tokenizer rejects it the handler of line 82 returns the failure text. For the source
  \<open>xx\<close> and the target \<open>de\<close>, which is a key of \<open>lang_mapping\<close> and has the id 128020,
  the draft is \<open>Translation failed: xx\<close>, the world is untouched and \<open>model.generate\<close>
  has not been called.
\<close>

theorem no_generation_for_rejected_source:
  "''de'' \<in> set (map fst lang_mapping) \<and>
   tokenizer_get_lang_id (reject_unknown_source (stub_workflow True None
       (Attribute True ''ctx'', Attribute True ''ref'', Attribute True ''fine''))) ''de'' = Inr 128020 \<and>
   get_initial_translation (reject_unknown_source (stub_workflow True None
       (Attribute True ''ctx'', Attribute True ''ref'', Attribute True ''fine'')))
     ''Hello'' ''xx'' ''de'' fresh =
     (Inr ''Translation failed: xx'',
      \<lparr>world = False, console = [TranslationError ''xx''], generate_calls = []\<rparr>)"
  by (simp add: get_initial_translation_def reject_unknown_source_def stub_workflow_def prog_defs
      dict_get_def lang_mapping_def stub_lang_ids_def py_index_def fresh_def)

text \<open>
  C8, as the code has it: let the target language be a key of \<open>lang_mapping\<close>, let the
  tokenizer's id for it be \<open>k\<close>, and let setting the source language and encoding the
  text succeed, with the encoding \<open>enc\<close>. Then the draft step is decided by the answer
  of \<open>self.model.generate\<close> to one request, made right after the encoding: the request
  with the inputs \<open>enc\<close>, \<open>forced_bos_token_id = k\<close>, \<open>max_length = 200\<close>,
  \<open>num_beams = 4\<close>, \<open>early_stopping = True\<close> and \<open>do_sample = False\<close>. The draft is the
  decoding of the first sequence of that answer; when the model raises, when it answers
  with no sequence or when the decoding raises, the draft is the failure text and the error
  is printed. That request is the only one recorded.
\<close>

theorem generation_answers_the_forced_request:
  assumes "tgt \<in> set (map fst lang_mapping)"
    and "tokenizer_get_lang_id self tgt = Inr k"
    and "tokenizer_set_src_lang self src (world s) = (Inr (), w1)"
    and "tokenizer_encode self t w1 = (Inr enc, w2)"
  shows "get_initial_translation self t src tgt s =
     (case model_generate self
             \<lparr>inputs = enc, forced_bos_token_id = k, max_length = 200,
              num_beams = 4, early_stopping = True, do_sample = False\<rparr> w2 of
        (Inl e, w3) \<Rightarrow>
          (Inr (''Translation failed: '' @ message e),
           s\<lparr>world := w3,
             console := console s @ [TranslationError (message e)],
             generate_calls := generate_calls s @
               [\<lparr>inputs = enc, forced_bos_token_id = k, max_length = 200,
                 num_beams = 4, early_stopping = True, do_sample = False\<rparr>]\<rparr>)
      | (Inr [], w3) \<Rightarrow>
          (Inr ''Translation failed: list index out of range'',
           s\<lparr>world := w3,
             console := console s @ [TranslationError ''list index out of range''],
             generate_calls := generate_calls s @
               [\<lparr>inputs = enc, forced_bos_token_id = k, max_length = 200,
                 num_beams = 4, early_stopping = True, do_sample = False\<rparr>]\<rparr>)
      | (Inr (first # _), w3) \<Rightarrow>
          (case tokenizer_decode self first w3 of
             (Inl e, w4) \<Rightarrow>
               (Inr (''Translation failed: '' @ message e),
                s\<lparr>world := w4,
                  console := console s @ [TranslationError (message e)],
                  generate_calls := generate_calls s @
                    [\<lparr>inputs = enc, forced_bos_token_id = k, max_length = 200,
                      num_beams = 4, early_stopping = True, do_sample = False\<rparr>]\<rparr>)
           | (Inr draft, w4) \<Rightarrow>
               (Inr draft,
                s\<lparr>world := w4,
                  generate_calls := generate_calls s @
                    [\<lparr>inputs = enc, forced_bos_token_id = k, max_length = 200,
                      num_beams = 4, early_stopping = True, do_sample = False\<rparr>]\<rparr>)))"
  using assms
  by (simp add: get_initial_translation_def prog_defs py_index_def dict_get_lang_mapping
      split: prod.splits sum.splits list.splits)

text \<open>A run from \<open>en\<close> to \<open>de\<close>: the request carries the id of \<open>de\<close>.\<close>

theorem generation_answers_the_forced_request_witness:
  "get_initial_translation (stub_workflow True None
       (Attribute True ''ctx'', Attribute True ''ref'', Attribute True ''fine''))
     ''Hello'' ''en'' ''de'' fresh =
     (Inr ''draft:Hello'',
      \<lparr>world = False, console = [],
       generate_calls = [\<lparr>inputs = ''Hello'', forced_bos_token_id = 128020, max_length = 200,
         num_beams = 4, early_stopping = True, do_sample = False\<rparr>]\<rparr>)"
proof -
  let ?self = "stub_workflow True None
      (Attribute True ''ctx'', Attribute True ''ref'', Attribute True ''fine'')"
  have a: "''de'' \<in> set (map fst lang_mapping)"
    by (simp add: lang_mapping_def)
  have k: "tokenizer_get_lang_id ?self ''de'' = Inr 128020"
    by (simp add: stub_workflow_def stub_lang_ids_def)
  have s: "tokenizer_set_src_lang ?self ''en'' (world fresh) = (Inr (), False)"
    by (simp add: stub_workflow_def fresh_def)
  have e: "tokenizer_encode ?self ''Hello'' False = (Inr ''Hello'', False)"
    by (simp add: stub_workflow_def)
  have g: "model_generate ?self
      \<lparr>inputs = ''Hello'', forced_bos_token_id = 128020, max_length = 200,
       num_beams = 4, early_stopping = True, do_sample = False\<rparr> False = (Inr [''draft:Hello''], False)"
    and d: "tokenizer_decode ?self ''draft:Hello'' False = (Inr ''draft:Hello'', False)"
    by (simp_all add: stub_workflow_def)
  from generation_answers_the_forced_request [OF a k s e] show ?thesis
    by (simp add: g d fresh_def)
qed


section \<open>C9: defaults for missing outputs\<close>

text \<open>
  C9: when the tasks have been built and the body of the \<open>try\<close> completes without an
  exception, \<open>translate\<close> returns a result in the state that body leaves (so the handler
  has not run and no failure is printed), in which a context task without a truthy output
  gives the context analysis \<open>Context analysis not available\<close>, a refinement task without
  a truthy output gives the draft as refined translation, and a quality task without a
  truthy output gives the quality assessment \<open>Quality assessment not available\<close>.
\<close>

theorem missing_outputs_get_defaults:
  assumes "translate_prelude self t src tgt s = (Inr (initial, ct, rt, qt), s1)"
    and "crew_try_body self initial ct rt qt s1 = (Inr parsed, s2)"
  shows "\<exists>r. translate self t src tgt s = (Inr r, s2) \<and>
     (missing_or_falsy (task_output self ct (world s2)) \<longrightarrow>
        context_analysis r = ''Context analysis not available'') \<and>
     (missing_or_falsy (task_output self rt (world s2)) \<longrightarrow>
        refined_translation r = initial \<and> initial_translation r = initial) \<and>
     (missing_or_falsy (task_output self qt (world s2)) \<longrightarrow>
        quality_assessment r = ''Quality assessment not available'')"
proof -
  obtain c rf q where p: "parsed = (c, rf, q)"
    by (cases parsed) auto
  have c: "c = output_or (task_output self ct (world s2)) ''Context analysis not available''"
    and rf: "rf = output_or (task_output self rt (world s2)) initial"
    and q: "q = output_or (task_output self qt (world s2)) ''Quality assessment not available''"
    using crew_try_body_Inr [OF assms(2)] p by simp_all
  let ?r = "assemble t src tgt initial (c, rf, q)"
  have "translate self t src tgt s = (Inr ?r, s2)"
    using assms p by (simp add: translate_after_prelude try_except_Inr)
  moreover have "context_analysis ?r = ''Context analysis not available''"
    if "missing_or_falsy (task_output self ct (world s2))"
    using that c by (simp only: assemble_simps output_or_default)
  moreover have "refined_translation ?r = initial \<and> initial_translation ?r = initial"
    if "missing_or_falsy (task_output self rt (world s2))"
    using that rf by (simp only: assemble_simps output_or_default)
  moreover have "quality_assessment ?r = ''Quality assessment not available''"
    if "missing_or_falsy (task_output self qt (world s2))"
    using that q by (simp only: assemble_simps output_or_default)
  ultimately show ?thesis by blast
qed

theorem missing_outputs_get_defaults_witness:
  "\<exists>r s'. translate (stub_workflow True None (NoAttribute, Attribute False ''None'', Attribute False []))
        ''Hello'' ''en'' ''fr'' fresh = (Inr r, s') \<and>
     context_analysis r = ''Context analysis not available'' \<and>
     refined_translation r = ''draft:Hello'' \<and>
     initial_translation r = ''draft:Hello'' \<and>
     quality_assessment r = ''Quality assessment not available''"
proof -
  let ?self = "stub_workflow True None (NoAttribute, Attribute False ''None'', Attribute False [])"
  obtain s1 where p: "translate_prelude ?self ''Hello'' ''en'' ''fr'' fresh =
      (Inr (''draft:Hello'', 0, 1, 2), s1)"
    by (simp add: stub_prelude)
  let ?s2 = "s1\<lparr>world := True, console := console s1 @ [ExecutingCrew]\<rparr>"
  have c: "crew_try_body ?self ''draft:Hello'' 0 1 2 s1 =
      (Inr (output_or NoAttribute ''Context analysis not available'',
            output_or (Attribute False ''None'') ''draft:Hello'',
            output_or (Attribute False []) ''Quality assessment not available''), ?s2)"
    by (rule stub_crew_runs)
  have m: "missing_or_falsy (task_output ?self 0 (world ?s2))"
    "missing_or_falsy (task_output ?self 1 (world ?s2))"
    "missing_or_falsy (task_output ?self 2 (world ?s2))"
    by (simp_all add: stub_workflow_def missing_or_falsy_def)
  from missing_outputs_get_defaults [OF p c] m show ?thesis by blast
qed


section \<open>C10: an empty response\<close>

text \<open>
  C10: when the request succeeds and \<open>response.text\<close> is \<open>None\<close> or the empty string,
  \<open>call\<close> returns \<open>No response generated\<close>, which is not the apology, and prints nothing.
\<close>

theorem empty_response_is_not_an_error:
  assumes "prompt_content self prompt = Inr content"
    and "generate_content self content (world s) = (Inr response, w')"
    and "response_text self response = Inr None \<or> response_text self response = Inr (Some [])"
  shows "call self prompt s = (Inr ''No response generated'', s\<lparr>world := w'\<rparr>) \<and>
     ''No response generated'' \<noteq> apology"
proof -
  have "text_or_placeholder x = ''No response generated''" if "x = None \<or> x = Some []" for x
    using that by (auto simp: text_or_placeholder_def)
  then have "call_try_body self prompt s = (Inr ''No response generated'', s\<lparr>world := w'\<rparr>)"
    using assms
    by (auto simp: call_try_body_def bind_prog_def from_result_def call_world_def return_val_def)
  then have "call self prompt s = (Inr ''No response generated'', s\<lparr>world := w'\<rparr>)"
    by (simp add: call_def try_except_def)
  moreover have "''No response generated'' \<noteq> apology"
    by (simp add: apology_def)
  ultimately show ?thesis by blast
qed

theorem empty_response_is_not_an_error_witness:
  "call (stub_llm (Inr (Inr None))) (PyStr ''hi'') offline =
     (Inr ''No response generated'', \<lparr>world = 1, console = [], generate_calls = []\<rparr>) \<and>
   ''No response generated'' \<noteq> apology"
proof -
  let ?self = "stub_llm (Inr (Inr None))"
  have a: "prompt_content ?self (PyStr ''hi'') = Inr (PyStr ''hi'')"
    by (simp add: prompt_content_def)
  have b: "generate_content ?self (PyStr ''hi'') (world offline) = (Inr (Inr None), 1)"
    by (simp add: stub_llm_def offline_def)
  have c: "response_text ?self (Inr None) = Inr None \<or> response_text ?self (Inr None) = Inr (Some [])"
    by (simp add: stub_llm_def)
  from empty_response_is_not_an_error [OF a b c] show ?thesis
    by (simp add: offline_def)
qed

end
